theory Spec2Isabelle
  imports Main "HOL-Library.Sublist"
begin

section \<open>Python values shared by the handlers\<close>

text \<open>
  A Python \<open>str\<close> is modelled as the list of its characters, so that \<open>len\<close> is
  \<open>length\<close> and \<open>==\<close> is equality of lists. A \<open>dict\<close> is an association list
  with distinct keys in insertion order; JSON bodies are values of \<open>json\<close>.
\<close>

datatype json =
    JNull
  | JBool bool
  | JInt int
  | JStr string
  | JList "json list"
  | JDict "(string \<times> json) list"

text \<open>\<open>d[k] = v\<close>: an existing key keeps its position, a new key is appended.\<close>

fun dict_set :: "'k \<Rightarrow> 'v \<Rightarrow> ('k \<times> 'v) list \<Rightarrow> ('k \<times> 'v) list" where
  "dict_set k v [] = [(k, v)]"
| "dict_set k v (p # ps) = (if fst p = k then (k, v) # ps else p # dict_set k v ps)"

text \<open>\<open>d.get(k)\<close>, with \<open>None\<close> as \<open>None\<close>.\<close>

definition dict_get :: "('k \<times> 'v) list \<Rightarrow> 'k \<Rightarrow> 'v option" where
  "dict_get d k = map_of d k"

text \<open>
  Exceptions are values. \<open>HTTPException\<close> is FastAPI's exception class, with its
  \<open>status_code\<close> and \<open>detail\<close>; \<open>Exception\<close> stands for every other subclass of
  Python's \<open>Exception\<close> and carries its message, which is what \<open>str(e)\<close> returns.
\<close>

datatype exn =
    HTTPException (status_code: int) (detail: string)
  | Exception (message: string)

datatype 'a outcome = Return 'a | Raise exn

text \<open>Truthiness of an optional string: \<open>None\<close> and \<open>""\<close> are false.\<close>

fun truthy :: "string option \<Rightarrow> bool" where
  "truthy None = False"
| "truthy (Some s) = (s \<noteq> [])"

section \<open>The request model read by the handlers\<close>

text \<open>
  The handlers inspect content blocks by attribute (\<open>hasattr\<close>, \<open>getattr\<close>), so a
  block is modelled by its \<open>type\<close> tag and the state of its \<open>text\<close> attribute:
  absent, \<open>None\<close>, or a string.
\<close>

datatype py_attr = Absent | PyNone | PyStr string

datatype content_block = ContentBlock (block_type: string) (text_attr: py_attr)

datatype system_prompt = SystemStr string | SystemBlocks "content_block list"

datatype message_content = ContentStr string | ContentBlocks "content_block list"

record message =
  role :: string
  content :: "message_content option"

record claude_token_count_request =
  tc_model :: string
  tc_messages :: "message list"
  tc_system :: "system_prompt option"

section \<open>\<open>count_tokens\<close> (src/api/endpoints.py, lines 138--173)\<close>

text \<open>\<open>len(None)\<close> raises \<open>TypeError\<close> with this message.\<close>

definition len_none_error :: exn where
  "len_none_error =
     Exception (''object of type '' @ [CHR 0x27] @ ''NoneType'' @ [CHR 0x27] @ '' has no len()'')"

text \<open>
  Lines 151--153: the loop over the blocks of a list-valued system prompt.
  \<open>hasattr(block, "text")\<close> holds for a \<open>text\<close> attribute that is \<open>None\<close>, and
  \<open>len(block.text)\<close> then raises.
\<close>

fun count_system_blocks :: "int \<Rightarrow> content_block list \<Rightarrow> exn + int" where
  "count_system_blocks total_chars [] = Inr total_chars"
| "count_system_blocks total_chars (b # bs) =
     (case text_attr b of
        Absent \<Rightarrow> count_system_blocks total_chars bs
      | PyNone \<Rightarrow> Inl len_none_error
      | PyStr s \<Rightarrow> count_system_blocks (total_chars + int (length s)) bs)"

text \<open>Lines 147--153. An empty string or an empty list is falsy and skipped.\<close>

fun count_system :: "int \<Rightarrow> system_prompt option \<Rightarrow> exn + int" where
  "count_system total_chars None = Inr total_chars"
| "count_system total_chars (Some (SystemStr s)) =
     (if s = [] then Inr total_chars else Inr (total_chars + int (length s)))"
| "count_system total_chars (Some (SystemBlocks bs)) =
     (if bs = [] then Inr total_chars else count_system_blocks total_chars bs)"

text \<open>
  Lines 162--164: the loop over the blocks of one message.
  \<open>getattr(block, "text", None) is not None\<close> skips an absent and a \<open>None\<close> text.
\<close>

fun count_message_blocks :: "int \<Rightarrow> content_block list \<Rightarrow> int" where
  "count_message_blocks total_chars [] = total_chars"
| "count_message_blocks total_chars (b # bs) =
     (case text_attr b of
        PyStr s \<Rightarrow> count_message_blocks (total_chars + int (length s)) bs
      | _ \<Rightarrow> count_message_blocks total_chars bs)"

text \<open>Lines 156--164: the loop over the messages.\<close>

fun count_messages :: "int \<Rightarrow> message list \<Rightarrow> int" where
  "count_messages total_chars [] = total_chars"
| "count_messages total_chars (msg # msgs) =
     (case content msg of
        None \<Rightarrow> count_messages total_chars msgs
      | Some (ContentStr s) \<Rightarrow> count_messages (total_chars + int (length s)) msgs
      | Some (ContentBlocks bs) \<Rightarrow> count_messages (count_message_blocks total_chars bs) msgs)"

text \<open>The body of the \<open>try\<close> block, lines 144--169.\<close>

definition count_tokens_body :: "claude_token_count_request \<Rightarrow> exn + json" where
  "count_tokens_body request =
     (case count_system 0 (tc_system request) of
        Inl e \<Rightarrow> Inl e
      | Inr total_chars \<Rightarrow>
          (let total_chars = count_messages total_chars (tc_messages request);
               estimated_tokens = max 1 (total_chars div 4)
           in Inr (JDict [(''input_tokens'', JInt estimated_tokens)])))"

text \<open>\<open>str(e)\<close>. Starlette's \<open>HTTPException.__str__\<close> is \<open>f"{status_code}: {detail}"\<close>.\<close>

fun digit_char :: "nat \<Rightarrow> char" where
  "digit_char n = char_of (48 + n)"

fun show_nat :: "nat \<Rightarrow> string" where
  "show_nat n = (if n < 10 then [digit_char n] else show_nat (n div 10) @ [digit_char (n mod 10)])"

definition show_int :: "int \<Rightarrow> string" where
  "show_int i = (if i < 0 then CHR ''-'' # show_nat (nat (- i)) else show_nat (nat i))"

fun py_str :: "exn \<Rightarrow> string" where
  "py_str (Exception m) = m"
| "py_str (HTTPException s d) = show_int s @ '': '' @ d"

text \<open>
  What a handler does besides returning: the lines it logs and the calls it makes on a
  backend client, in order.
\<close>

datatype log_entry =
    Debug_processing string bool
  | Debug_headers "(string \<times> string) list"
  | Debug_openai_request "(string \<times> json) list"
  | Error_streaming string
  | Error_traceback string
  | Error_unexpected string
  | Error_counting string
  | Error_connectivity string
  | Warning_invalid_key

record openai_client =
  api_key :: string
  base_url :: string
  timeout :: int
  api_version :: "string option"

datatype effect =
    Log log_entry
  | Backend_stream_call openai_client
  | Backend_completion_call openai_client

text \<open>
  Lines 139--173: the handler. Any exception of the body is logged and replaced by
  \<open>HTTPException(500, detail=str(e))\<close>. The result is the outcome and the effects.
\<close>

definition count_tokens :: "claude_token_count_request \<Rightarrow> json outcome \<times> effect list" where
  "count_tokens request =
     (case count_tokens_body request of
        Inr body \<Rightarrow> (Return body, [])
      | Inl e \<Rightarrow> (Raise (HTTPException 500 (py_str e)), [Log (Error_counting (py_str e))]))"

subsection \<open>The estimate as the claim words it\<close>

text \<open>
  The character count of a request, written as sums: the length of a string system
  prompt or of the text of its blocks, plus, per message, the length of a string
  content or of the text of its text-bearing blocks.
\<close>

fun text_len :: "content_block \<Rightarrow> int" where
  "text_len b = (case text_attr b of PyStr s \<Rightarrow> int (length s) | _ \<Rightarrow> 0)"

fun system_chars :: "system_prompt option \<Rightarrow> int" where
  "system_chars None = 0"
| "system_chars (Some (SystemStr s)) = int (length s)"
| "system_chars (Some (SystemBlocks bs)) = sum_list (map text_len bs)"

fun message_chars :: "message \<Rightarrow> int" where
  "message_chars msg =
     (case content msg of
        None \<Rightarrow> 0
      | Some (ContentStr s) \<Rightarrow> int (length s)
      | Some (ContentBlocks bs) \<Rightarrow> sum_list (map text_len bs))"

definition total_text_chars :: "claude_token_count_request \<Rightarrow> int" where
  "total_text_chars request =
     system_chars (tc_system request) + sum_list (map message_chars (tc_messages request))"

fun system_text_typed :: "system_prompt option \<Rightarrow> bool" where
  "system_text_typed (Some (SystemBlocks bs)) = list_all (\<lambda>b. text_attr b \<noteq> PyNone) bs"
| "system_text_typed _ = True"

fun is_text_bearing :: "content_block \<Rightarrow> bool" where
  "is_text_bearing b = (case text_attr b of PyStr s \<Rightarrow> True | _ \<Rightarrow> False)"

fun text_blocks_only :: "message \<Rightarrow> message" where
  "text_blocks_only msg =
     (case content msg of
        Some (ContentBlocks bs) \<Rightarrow> msg\<lparr>content := Some (ContentBlocks (filter is_text_bearing bs))\<rparr>
      | _ \<Rightarrow> msg)"

definition example_count_request :: claude_token_count_request where
  "example_count_request =
     \<lparr> tc_model = ''claude-3-haiku'',
       tc_messages =
         [\<lparr> role = ''user'', content = Some (ContentStr ''Hi'') \<rparr>,
          \<lparr> role = ''assistant'',
            content = Some (ContentBlocks
              [ContentBlock ''text'' (PyStr ''abc''), ContentBlock ''image'' Absent]) \<rparr>],
       tc_system = Some (SystemBlocks [ContentBlock ''text'' (PyStr ''You are'')]) \<rparr>"

section \<open>Configuration (src/core/config.py)\<close>

text \<open>
  The attributes \<open>Config.__init__\<close> sets and the handlers read. \<open>openai_api_key\<close> is a
  non-empty string once the constructor has returned (it raises otherwise);
  \<open>anthropic_api_key\<close> is \<open>None\<close> when the variable is unset.
\<close>

record config =
  openai_api_key :: string
  anthropic_api_key :: "string option"
  openai_base_url :: string
  small_model_base_url :: string
  small_model_api_key :: string
  azure_api_version :: "string option"
  max_tokens_limit :: int
  min_tokens_limit :: int
  request_timeout :: int
  big_model :: string
  middle_model :: string
  small_model :: string

text \<open>Lines 63--70 of config.py.\<close>

definition validate_client_api_key :: "config \<Rightarrow> string \<Rightarrow> bool" where
  "validate_client_api_key cfg client_api_key =
     (if \<not> truthy (anthropic_api_key cfg) then True
      else Some client_api_key = anthropic_api_key cfg)"

section \<open>\<open>validate_api_key\<close> (src/api/endpoints.py, lines 42--59)\<close>

text \<open>
  \<open>s.replace(old, new)\<close>: every non-overlapping occurrence of \<open>old\<close>, scanning from
  the left. With an empty \<open>old\<close>, Python inserts \<open>new\<close> before every character and at
  the end.
\<close>

function str_replace :: "string \<Rightarrow> string \<Rightarrow> string \<Rightarrow> string" where
  "str_replace old new s =
     (if old = [] then new @ concat (map (\<lambda>c. c # new) s)
      else if s = [] then []
      else if prefix old s then new @ str_replace old new (drop (length old) s)
      else hd s # str_replace old new (tl s))"
  by pat_completeness auto
termination
  by (relation "measure (\<lambda>(old, new, s). length s)") auto

declare str_replace.simps [simp del]

text \<open>Lines 44--50: the key the client sent.\<close>

definition extract_client_api_key :: "string option \<Rightarrow> string option \<Rightarrow> string option" where
  "extract_client_api_key x_api_key authorization =
     (if truthy x_api_key then x_api_key
      else (case authorization of
              None \<Rightarrow> None
            | Some a \<Rightarrow>
                if a \<noteq> [] \<and> prefix ''Bearer '' a then Some (str_replace ''Bearer '' [] a)
                else None))"

definition invalid_api_key :: exn where
  "invalid_api_key =
     HTTPException 401 ''Invalid API key. Please provide a valid Anthropic API key.''"

definition validate_api_key ::
  "config \<Rightarrow> string option \<Rightarrow> string option \<Rightarrow> unit outcome \<times> effect list" where
  "validate_api_key cfg x_api_key authorization =
     (let client_api_key = extract_client_api_key x_api_key authorization
      in if \<not> truthy (anthropic_api_key cfg) then (Return (), [])
         else (case client_api_key of
                 None \<Rightarrow> (Raise invalid_api_key, [Log Warning_invalid_key])
               | Some k \<Rightarrow>
                   if k = [] \<or> \<not> validate_client_api_key cfg k
                   then (Raise invalid_api_key, [Log Warning_invalid_key])
                   else (Return (), [])))"

subsection \<open>The check as the claim words it\<close>

text \<open>
  The claim's extracted key: the \<open>x-api-key\<close> header if present, otherwise what follows
  the \<open>Bearer\<close> prefix of the \<open>Authorization\<close> header.
\<close>

definition claimed_client_key :: "string option \<Rightarrow> string option \<Rightarrow> string option" where
  "claimed_client_key x_api_key authorization =
     (case x_api_key of
        Some k \<Rightarrow> Some k
      | None \<Rightarrow>
          (case authorization of
             None \<Rightarrow> None
           | Some a \<Rightarrow> if prefix ''Bearer '' a then Some (drop 7 a) else None))"

definition claimed_rejects :: "config \<Rightarrow> string option \<Rightarrow> string option \<Rightarrow> bool" where
  "claimed_rejects cfg x_api_key authorization =
     (truthy (anthropic_api_key cfg) \<and>
      (claimed_client_key x_api_key authorization = None \<or>
       claimed_client_key x_api_key authorization \<noteq> anthropic_api_key cfg))"




definition example_config :: config where
  "example_config =
     \<lparr> openai_api_key = ''sk-test'',
       anthropic_api_key = Some ''secret'',
       openai_base_url = ''https://api.openai.com/v1'',
       small_model_base_url = ''https://api.openai.com/v1'',
       small_model_api_key = ''sk-test'',
       azure_api_version = None,
       max_tokens_limit = 4096,
       min_tokens_limit = 100,
       request_timeout = 90,
       big_model = ''gpt-4o'',
       middle_model = ''gpt-4o'',
       small_model = ''gpt-4o-mini'' \<rparr>"

section \<open>The backend clients (src/api/endpoints.py, lines 21--39)\<close>

text \<open>
  The two module-level clients. \<open>main_client\<close> is the one the module names
  \<open>openai_client\<close>; \<open>config.openai_api_key or ""\<close> is the key itself, for an empty
  key too.
\<close>

definition main_client :: "config \<Rightarrow> openai_client" where
  "main_client cfg =
     \<lparr> api_key = (if openai_api_key cfg = [] then [] else openai_api_key cfg),
       base_url = openai_base_url cfg,
       timeout = request_timeout cfg,
       api_version = azure_api_version cfg \<rparr>"

definition small_model_client :: "config \<Rightarrow> openai_client" where
  "small_model_client cfg =
     (if small_model_base_url cfg \<noteq> openai_base_url cfg \<or>
         small_model_api_key cfg \<noteq> openai_api_key cfg
      then \<lparr> api_key = (if small_model_api_key cfg = [] then [] else small_model_api_key cfg),
             base_url = small_model_base_url cfg,
             timeout = request_timeout cfg,
             api_version = azure_api_version cfg \<rparr>
      else main_client cfg)"

section \<open>\<open>create_message\<close> (src/api/endpoints.py, lines 62--135)\<close>

record claude_messages_request =
  model :: string
  max_tokens :: int
  messages :: "message list"
  system :: "system_prompt option"
  stream :: bool

text \<open>
  The collaborators of the handler whose code is in other modules (the converters, the
  client's methods, the transport's disconnection check) and the values it reads from
  the outside (\<open>uuid.uuid4()\<close>, \<open>traceback.format_exc()\<close>, \<open>datetime.now()\<close>) are
  parameters: a call raises (\<open>Inl\<close>) or returns (\<open>Inr\<close>).
\<close>

record collaborators =
  uuid4 :: string
  convert_claude_to_openai :: "claude_messages_request \<Rightarrow> exn + (string \<times> json) list"
  is_disconnected :: bool
  create_chat_completion_stream ::
    "openai_client \<Rightarrow> (string \<times> json) list \<Rightarrow> string \<Rightarrow> exn + json list"
  create_chat_completion ::
    "openai_client \<Rightarrow> (string \<times> json) list \<Rightarrow> string option \<Rightarrow> exn + (string \<times> json) list"
  convert_openai_to_claude_response ::
    "(string \<times> json) list \<Rightarrow> claude_messages_request \<Rightarrow> exn + json"
  classify_openai_error :: "openai_client \<Rightarrow> string \<Rightarrow> string"
  format_exc :: "exn \<Rightarrow> string"
  now_isoformat :: string

text \<open>
  What a handler hands to FastAPI: a \<open>JSONResponse\<close>, a \<open>StreamingResponse\<close> over the
  translating generator (given by the arguments it was created with), or a plain value
  that FastAPI serialises with status 200.
\<close>

datatype response =
    JSONResponse int json
  | StreamingResponse "json list" claude_messages_request openai_client string
      string "(string \<times> string) list"
  | Plain json

text \<open>Lines 66--69: the dict comprehension over \<open>http_request.headers.items()\<close>.\<close>

definition mask_header :: "string \<Rightarrow> string \<Rightarrow> string" where
  "mask_header k v =
     (if k \<in> set [''Authorization'', ''x-api-key'', ''meta-data''] then v else ''*****'')"

fun masked_headers_from ::
  "(string \<times> string) list \<Rightarrow> (string \<times> string) list \<Rightarrow> (string \<times> string) list" where
  "masked_headers_from d [] = d"
| "masked_headers_from d ((k, v) # items) = masked_headers_from (dict_set k (mask_header k v) d) items"

definition masked_headers :: "(string \<times> string) list \<Rightarrow> (string \<times> string) list" where
  "masked_headers items = masked_headers_from [] items"

text \<open>Lines 79--83: the client for the converted request.\<close>

definition select_client :: "config \<Rightarrow> (string \<times> json) list \<Rightarrow> openai_client" where
  "select_client cfg openai_request =
     (let openai_model = dict_get openai_request ''model'';
          is_small_model = (openai_model = Some (JStr (small_model cfg)))
      in if is_small_model then small_model_client cfg else main_client cfg)"

text \<open>
  Lines 127--135: the handlers of the outer \<open>try\<close>. An \<open>HTTPException\<close> is raised
  again as it is; any other exception is logged with its traceback and replaced by
  \<open>HTTPException(500)\<close> whose detail is the main client's classification of \<open>str(e)\<close>.
\<close>

fun outer_except ::
  "collaborators \<Rightarrow> config \<Rightarrow> exn \<Rightarrow> effect list \<Rightarrow> response outcome \<times> effect list" where
  "outer_except c cfg (HTTPException s d) trace = (Raise (HTTPException s d), trace)"
| "outer_except c cfg (Exception m) trace =
     (Raise (HTTPException 500 (classify_openai_error c (main_client cfg) m)),
      trace @ [Log (Error_unexpected m), Log (Error_traceback (format_exc c (Exception m)))])"

text \<open>Lines 89--121: the streaming branch, with its own handler for \<open>HTTPException\<close>.\<close>

definition stream_headers :: "(string \<times> string) list" where
  "stream_headers =
     [(''Cache-Control'', ''no-cache''), (''Connection'', ''keep-alive''),
      (''Access-Control-Allow-Origin'', ''*''), (''Access-Control-Allow-Headers'', ''*'')]"

definition streaming_branch ::
  "collaborators \<Rightarrow> config \<Rightarrow> claude_messages_request \<Rightarrow> (string \<times> json) list \<Rightarrow>
   openai_client \<Rightarrow> string \<Rightarrow> effect list \<Rightarrow> response outcome \<times> effect list" where
  "streaming_branch c cfg request openai_request current_client request_id trace =
     (case create_chat_completion_stream c current_client openai_request request_id of
        Inr openai_stream \<Rightarrow>
          (Return (StreamingResponse openai_stream request current_client request_id
                     ''text/event-stream'' stream_headers),
           trace @ [Backend_stream_call current_client])
      | Inl (HTTPException s d) \<Rightarrow>
          (let error_message = classify_openai_error c current_client d;
               error_response =
                 JDict [(''type'', JStr ''error''),
                        (''error'', JDict [(''type'', JStr ''api_error''),
                                           (''message'', JStr error_message)])]
           in (Return (JSONResponse s error_response),
               trace @ [Backend_stream_call current_client, Log (Error_streaming d),
                       Log (Error_traceback (format_exc c (HTTPException s d)))]))
      | Inl (Exception m) \<Rightarrow>
          outer_except c cfg (Exception m) (trace @ [Backend_stream_call current_client]))"

text \<open>Lines 123--126: the non-streaming branch.\<close>

definition non_streaming_branch ::
  "collaborators \<Rightarrow> config \<Rightarrow> claude_messages_request \<Rightarrow> (string \<times> json) list \<Rightarrow>
   openai_client \<Rightarrow> string \<Rightarrow> effect list \<Rightarrow> response outcome \<times> effect list" where
  "non_streaming_branch c cfg request openai_request current_client request_id trace =
     (case create_chat_completion c current_client openai_request (Some request_id) of
        Inl e \<Rightarrow> outer_except c cfg e (trace @ [Backend_completion_call current_client])
      | Inr openai_response \<Rightarrow>
          (case convert_openai_to_claude_response c openai_response request of
             Inl e \<Rightarrow> outer_except c cfg e (trace @ [Backend_completion_call current_client])
           | Inr claude_response \<Rightarrow>
               (Return (Plain claude_response), trace @ [Backend_completion_call current_client])))"

text \<open>Lines 63--135: the handler.\<close>

definition create_message ::
  "collaborators \<Rightarrow> config \<Rightarrow> claude_messages_request \<Rightarrow> (string \<times> string) list \<Rightarrow>
   response outcome \<times> effect list" where
  "create_message c cfg request http_headers =
     (let logged = [Log (Debug_processing (model request) (stream request)),
                    Log (Debug_headers (masked_headers http_headers))];
          request_id = uuid4 c
      in case convert_claude_to_openai c request of
           Inl e \<Rightarrow> outer_except c cfg e logged
         | Inr openai_request \<Rightarrow>
             (let logged = logged @ [Log (Debug_openai_request openai_request)];
                  current_client = select_client cfg openai_request
              in if is_disconnected c
                 then outer_except c cfg (HTTPException 499 ''Client disconnected'') logged
                 else if stream request
                 then streaming_branch c cfg request openai_request current_client request_id logged
                 else non_streaming_branch c cfg request openai_request current_client
                        request_id logged))"

text \<open>
  The route: \<open>Depends(validate_api_key)\<close> runs first, and its exception ends the
  request before the handler is entered.
\<close>

definition post_v1_messages ::
  "collaborators \<Rightarrow> config \<Rightarrow> string option \<Rightarrow> string option \<Rightarrow> claude_messages_request \<Rightarrow>
   (string \<times> string) list \<Rightarrow> response outcome \<times> effect list" where
  "post_v1_messages c cfg x_api_key authorization request http_headers =
     (case validate_api_key cfg x_api_key authorization of
        (Raise e, logged) \<Rightarrow> (Raise e, logged)
      | (Return u, logged) \<Rightarrow>
          (case create_message c cfg request http_headers of
             (r, effects) \<Rightarrow> (r, logged @ effects)))"

section \<open>\<open>test_connection\<close> (src/api/endpoints.py, lines 188--224)\<close>

definition test_request :: "config \<Rightarrow> (string \<times> json) list" where
  "test_request cfg =
     [(''model'', JStr (small_model cfg)),
      (''messages'', JList [JDict [(''role'', JStr ''user''), (''content'', JStr ''Hello'')]]),
      (''max_tokens'', JInt 5)]"

definition test_connection :: "collaborators \<Rightarrow> config \<Rightarrow> response outcome \<times> effect list" where
  "test_connection c cfg =
     (case create_chat_completion c (main_client cfg) (test_request cfg) None of
        Inr test_response \<Rightarrow>
          (Return (Plain (JDict
             [(''status'', JStr ''success''),
              (''message'', JStr ''Successfully connected to OpenAI API''),
              (''model_used'', JStr (small_model cfg)),
              (''timestamp'', JStr (now_isoformat c)),
              (''response_id'',
                 (case dict_get test_response ''id'' of None \<Rightarrow> JStr ''unknown'' | Some v \<Rightarrow> v))])),
           [Backend_completion_call (main_client cfg)])
      | Inl e \<Rightarrow>
          (Return (JSONResponse 503 (JDict
             [(''status'', JStr ''failed''),
              (''error_type'', JStr ''API Error''),
              (''message'', JStr (py_str e)),
              (''timestamp'', JStr (now_isoformat c)),
              (''suggestions'', JList
                 [JStr ''Check your OPENAI_API_KEY is valid'',
                  JStr ''Verify your API key has the necessary permissions'',
                  JStr ''Check if you have reached rate limits''])])),
           [Backend_completion_call (main_client cfg), Log (Error_connectivity (py_str e))]))"

section \<open>What the caller receives\<close>

text \<open>
  src/main.py builds the application with \<open>FastAPI(...)\<close> and registers no exception
  handler, so FastAPI's default one answers a raised \<open>HTTPException\<close>: the status is
  its \<open>status_code\<close>, and the body is \<open>{"detail": detail}\<close> where the status allows a
  body and empty otherwise (a status below 200, or 204, 205 or 304). Any other exception
  that leaves a handler is answered with status 500 and a plain text body. A response
  the handler returns is sent as it was built.
\<close>

datatype http_body = Json_body json | Event_stream_body | Text_body string | No_body

definition body_allowed :: "int \<Rightarrow> bool" where
  "body_allowed status = (\<not> (status < 200 \<or> status \<in> {204, 205, 304}))"

fun fastapi_reply :: "response outcome \<Rightarrow> int \<times> http_body" where
  "fastapi_reply (Return (JSONResponse s j)) = (s, Json_body j)"
| "fastapi_reply (Return (StreamingResponse u r cl i m h)) = (200, Event_stream_body)"
| "fastapi_reply (Return (Plain j)) = (200, Json_body j)"
| "fastapi_reply (Raise (HTTPException s d)) =
     (s, if body_allowed s then Json_body (JDict [(''detail'', JStr d)]) else No_body)"
| "fastapi_reply (Raise (Exception m)) = (500, Text_body ''Internal Server Error'')"

section \<open>Definitions used to state the claims\<close>

subsection \<open>The error envelope\<close>

text \<open>The shape \<open>{"type": "error", "error": {"type": kind, "message": text}}\<close>.\<close>

definition error_envelope :: "string \<Rightarrow> string \<Rightarrow> json" where
  "error_envelope kind text =
     JDict [(''type'', JStr ''error''),
            (''error'', JDict [(''type'', JStr kind), (''message'', JStr text)])]"

fun json_str :: "json \<Rightarrow> string option" where
  "json_str (JStr s) = Some s"
| "json_str _ = None"

fun json_dict :: "json \<Rightarrow> (string \<times> json) list option" where
  "json_dict (JDict d) = Some d"
| "json_dict _ = None"

text \<open>
  The kind and the message of a JSON value of that shape: an object with exactly the
  keys \<open>type\<close> (the string \<open>error\<close>) and \<open>error\<close>, the latter an object with exactly
  the string-valued keys \<open>type\<close> and \<open>message\<close>. \<open>None\<close> for any other value.
\<close>

definition envelope_fields :: "json \<Rightarrow> (string \<times> string) option" where
  "envelope_fields j =
     (case json_dict j of
        None \<Rightarrow> None
      | Some d \<Rightarrow>
          if distinct (map fst d) \<and> set (map fst d) = {''type'', ''error''} \<and>
             map_of d ''type'' = Some (JStr ''error'')
          then (case Option.bind (map_of d ''error'') json_dict of
                  None \<Rightarrow> None
                | Some e \<Rightarrow>
                    if distinct (map fst e) \<and> set (map fst e) = {''type'', ''message''}
                    then (case (Option.bind (map_of e ''type'') json_str,
                                Option.bind (map_of e ''message'') json_str) of
                            (Some kind, Some text) \<Rightarrow> Some (kind, text)
                          | _ \<Rightarrow> None)
                    else None)
          else None)"

definition is_error_envelope :: "json \<Rightarrow> bool" where
  "is_error_envelope j = (envelope_fields j \<noteq> None)"

fun body_is_error_envelope :: "http_body \<Rightarrow> bool" where
  "body_is_error_envelope (Json_body j) = is_error_envelope j"
| "body_is_error_envelope _ = False"

text \<open>A collaborator set whose backend calls raise \<open>e\<close>; everything else succeeds.\<close>

definition failing_backend :: "exn \<Rightarrow> collaborators" where
  "failing_backend e =
     \<lparr> uuid4 = ''0af3'',
       convert_claude_to_openai = (\<lambda>r. Inr [(''model'', JStr ''gpt-4o''), (''stream'', JBool (stream r))]),
       is_disconnected = False,
       create_chat_completion_stream = (\<lambda>cl rq i. Inl e),
       create_chat_completion = (\<lambda>cl rq i. Inl e),
       convert_openai_to_claude_response = (\<lambda>resp r. Inr (JDict resp)),
       classify_openai_error = (\<lambda>cl s. s),
       format_exc = (\<lambda>e. ''Traceback (most recent call last): ...''),
       now_isoformat = ''2024-05-01T12:00:00'' \<rparr>"

definition example_request :: "bool \<Rightarrow> claude_messages_request" where
  "example_request streaming =
     \<lparr> model = ''claude-3-5-haiku'',
       max_tokens = 1024,
       messages = [\<lparr> role = ''user'', content = Some (ContentStr ''Hi'') \<rparr>],
       system = None,
       stream = streaming \<rparr>"

text \<open>What the handlers of the outer \<open>try\<close> raise for an exception \<open>e\<close>.\<close>

fun raised_again :: "collaborators \<Rightarrow> config \<Rightarrow> exn \<Rightarrow> exn" where
  "raised_again c cfg (HTTPException s d) = HTTPException s d"
| "raised_again c cfg (Exception m) = HTTPException 500 (classify_openai_error c (main_client cfg) m)"

text \<open>
  Modelled from the spec: the ErrorClassifier's mapping from a backend status code to a
  kind of the taxonomy (section 4.5), whose code is not under src/. Only the codes the
  spec maps to one kind are given; for the others it names alternatives or heuristics.
\<close>

definition classified_kind :: "int \<Rightarrow> string option" where
  "classified_kind status =
     (if status = 401 then Some ''authentication''
      else if status = 403 then Some ''permission''
      else if status = 404 then Some ''not_found''
      else if status = 429 then Some ''rate_limit''
      else None)"

text \<open>The \<open>error.type\<close> of a returned envelope.\<close>

fun reply_kind :: "response outcome \<Rightarrow> string option" where
  "reply_kind (Return (JSONResponse s j)) = map_option fst (envelope_fields j)"
| "reply_kind _ = None"

fun is_backend_call :: "effect \<Rightarrow> bool" where
  "is_backend_call (Log l) = False"
| "is_backend_call (Backend_stream_call cl) = True"
| "is_backend_call (Backend_completion_call cl) = True"

text \<open>The text an error reply carries: \<open>detail\<close>, \<open>message\<close>, or the envelope's message.\<close>

definition surfaced_text :: "int \<times> http_body \<Rightarrow> string option" where
  "surfaced_text reply =
     (case snd reply of
        Json_body j \<Rightarrow>
          (case json_dict j of
             None \<Rightarrow> None
           | Some d \<Rightarrow>
               (case map_of d ''detail'' of
                  Some v \<Rightarrow> json_str v
                | None \<Rightarrow>
                    (case map_of d ''message'' of
                       Some v \<Rightarrow> json_str v
                     | None \<Rightarrow> map_option snd (envelope_fields j))))
      | _ \<Rightarrow> None)"

definition rate_limited :: collaborators where
  "rate_limited = failing_backend (HTTPException 429 ''Rate limit exceeded'')"

definition connection_refused :: collaborators where
  "connection_refused = failing_backend (Exception ''[Errno 111] Connection refused'')"

text \<open>
  A backend whose response cannot be converted, and a converter that rejects the request.
\<close>

definition malformed_response :: collaborators where
  "malformed_response =
     rate_limited\<lparr> create_chat_completion := (\<lambda>cl rq i. Inr [(''id'', JStr ''chatcmpl-1'')]),
                   convert_openai_to_claude_response :=
                     (\<lambda>resp r. Inl (Exception ''response has no choices'')) \<rparr>"

definition rejecting_converter :: collaborators where
  "rejecting_converter =
     rate_limited\<lparr> convert_claude_to_openai :=
                     (\<lambda>r. Inl (HTTPException 400 ''messages: field required'')) \<rparr>"

definition disconnected_client :: collaborators where
  "disconnected_client = rate_limited\<lparr>is_disconnected := True\<rparr>"

definition example_headers :: "(string \<times> string) list" where
  "example_headers =
     [(''host'', ''localhost:8082''), (''x-api-key'', ''secret''),
      (''content-type'', ''application/json''), (''x-api-key'', ''second'')]"

definition untyped_system_request :: claude_token_count_request where
  "untyped_system_request =
     example_count_request\<lparr>tc_system := Some (SystemBlocks [ContentBlock ''text'' PyNone])\<rparr>"

section \<open>Routing and clamping, from the specification\<close>

text \<open>
  Modelled from the spec: the tiers of section 4.1 and their configured models. The
  router's code (src/core/model_manager.py) is not under src/.
\<close>

datatype tier = Small | Middle | Large

fun tier_model :: "config \<Rightarrow> tier \<Rightarrow> string" where
  "tier_model cfg Small = small_model cfg"
| "tier_model cfg Middle = middle_model cfg"
| "tier_model cfg Large = big_model cfg"

text \<open>
  Modelled from the spec: case-insensitive containment, as containment of the lowered
  hint in the lowered identifier; \<open>lower\<close> is \<open>s.lower()\<close> on ASCII letters.
\<close>

definition lower_char :: "char \<Rightarrow> char" where
  "lower_char ch =
     (if 65 \<le> (of_char ch :: nat) \<and> (of_char ch :: nat) \<le> 90
      then char_of ((of_char ch :: nat) + 32) else ch)"

definition lower :: "string \<Rightarrow> string" where
  "lower s = map lower_char s"

definition contains_ci :: "string \<Rightarrow> string \<Rightarrow> bool" where
  "contains_ci hint identifier = sublist (lower hint) (lower identifier)"

text \<open>The longest pair of a list of hints, the earlier one among equally long ones.\<close>

fun longest_hint :: "(string \<times> tier) list \<Rightarrow> (string \<times> tier) option" where
  "longest_hint [] = None"
| "longest_hint (p # ps) =
     (case longest_hint ps of
        None \<Rightarrow> Some p
      | Some b \<Rightarrow> if length (fst b) > length (fst p) then Some b else Some p)"

text \<open>
  Modelled from the spec: the ModelRouter (section 4.1), whose code (src/core/model_manager.py)
  is not under src/. The identifier is matched against the known size hints by
  case-insensitive containment, the longest match wins, and an identifier that matches
  no hint goes to the middle tier. The table of hints is a parameter.
\<close>

definition route_tier :: "(string \<times> tier) list \<Rightarrow> string \<Rightarrow> tier" where
  "route_tier hints identifier =
     (case longest_hint (filter (\<lambda>p. contains_ci (fst p) identifier) hints) of
        None \<Rightarrow> Middle
      | Some b \<Rightarrow> snd b)"

definition resolve_model :: "config \<Rightarrow> (string \<times> tier) list \<Rightarrow> string \<Rightarrow> string" where
  "resolve_model cfg hints identifier = tier_model cfg (route_tier hints identifier)"

text \<open>
  The hints that src/main.py prints: haiku requests go to the small model, sonnet
  requests to the middle model, opus requests to the big model.
\<close>

definition size_hints :: "(string \<times> tier) list" where
  "size_hints = [(''haiku'', Small), (''sonnet'', Middle), (''opus'', Large)]"

text \<open>
  Modelled from the spec: the clamping of the requested max output tokens by the
  RequestTranslator (sections 4.2 and 8), whose code (src/conversion/request_converter.py)
  is not under src/. A value above the configured ceiling becomes the ceiling, a value
  below the configured floor becomes the floor. The bounds are those of
  \<open>Config.__init__\<close>, lines 31--32.
\<close>

definition clamp_max_tokens :: "config \<Rightarrow> int \<Rightarrow> int" where
  "clamp_max_tokens cfg requested =
     (if requested > max_tokens_limit cfg then max_tokens_limit cfg
      else if requested < min_tokens_limit cfg then min_tokens_limit cfg
      else requested)"

datatype translation_error = InvalidRequest

text \<open>
  Modelled from the spec: the RequestTranslator (section 4.2), as far as the model and the
  token limit of the backend request go. It fails with \<open>InvalidRequest\<close> when the model or
  every message is absent.
\<close>

definition translate_request ::
  "config \<Rightarrow> (string \<times> tier) list \<Rightarrow> claude_messages_request \<Rightarrow>
   translation_error + (string \<times> json) list" where
  "translate_request cfg hints request =
     (if model request = [] \<or> messages request = [] then Inl InvalidRequest
      else Inr [(''model'', JStr (resolve_model cfg hints (model request))),
                (''max_tokens'', JInt (clamp_max_tokens cfg (max_tokens request)))])"

text \<open>
  Modelled from the spec: the handler's request converter as the RequestTranslator. An
  \<open>InvalidRequest\<close> is surfaced as an HTTP 4xx error (section 7); status 400 is taken.
\<close>

definition spec_converter ::
  "config \<Rightarrow> (string \<times> tier) list \<Rightarrow> claude_messages_request \<Rightarrow> exn + (string \<times> json) list" where
  "spec_converter cfg hints request =
     (case translate_request cfg hints request of
        Inl InvalidRequest \<Rightarrow> Inl (HTTPException 400 ''InvalidRequest'')
      | Inr q \<Rightarrow> Inr q)"

definition with_spec_converter ::
  "collaborators \<Rightarrow> config \<Rightarrow> (string \<times> tier) list \<Rightarrow> collaborators" where
  "with_spec_converter c cfg hints = c\<lparr>convert_claude_to_openai := spec_converter cfg hints\<rparr>"

text \<open>The backend call a handler makes, by kind.\<close>

definition backend_call :: "bool \<Rightarrow> openai_client \<Rightarrow> effect" where
  "backend_call streaming cl =
     (if streaming then Backend_stream_call cl else Backend_completion_call cl)"

text \<open>
  A configuration with a small-model endpoint of its own, and a backend that answers
  with the model it was asked for and the base URL of the client it was called on.
\<close>

definition split_config :: config where
  "split_config =
     example_config\<lparr> small_model_base_url := ''https://small.example/v1'',
                     small_model_api_key := ''sk-small'' \<rparr>"

definition answering_backend :: collaborators where
  "answering_backend =
     rate_limited\<lparr> create_chat_completion_stream := (\<lambda>cl rq i. Inr []),
                   create_chat_completion :=
                     (\<lambda>cl rq i. Inr [(''model'', (case dict_get rq ''model'' of
                                                    None \<Rightarrow> JNull | Some v \<Rightarrow> v)),
                                      (''served_by'', JStr (base_url cl))]) \<rparr>"

text \<open>
  The backend request and the client that the routing of a request calls for: the
  translated request with the routed model, and the small-model client exactly when the
  routed model is the configured small model.
\<close>

definition routed_request ::
  "config \<Rightarrow> (string \<times> tier) list \<Rightarrow> claude_messages_request \<Rightarrow> (string \<times> json) list" where
  "routed_request cfg hints request =
     [(''model'', JStr (resolve_model cfg hints (model request))),
      (''max_tokens'', JInt (clamp_max_tokens cfg (max_tokens request)))]"

definition routed_client ::
  "config \<Rightarrow> (string \<times> tier) list \<Rightarrow> claude_messages_request \<Rightarrow> openai_client" where
  "routed_client cfg hints request =
     (if resolve_model cfg hints (model request) = small_model cfg
      then small_model_client cfg else main_client cfg)"

definition unhinted_request :: claude_messages_request where
  "unhinted_request = (example_request False)\<lparr>model := ''gpt-4''\<rparr>"

section \<open>The stream translator, from the specification\<close>

text \<open>
  Modelled from the spec: the StreamTranslator, the translating generator handed to
  \<open>StreamingResponse\<close>, whose code (src/conversion/response_converter.py) is not under
  src/. The types follow section 3 and the state machine section 4.4 of the
  specification. Events are modelled by their kind, their block index and the text they
  carry; stop-reason mapping and usage counters are left out.
\<close>

datatype block_type = Text_block | Tool_use_block

record tool_call_fragment =
  call_id :: string
  name_fragment :: string
  arguments_fragment :: string

text \<open>A Protocol-B chunk (section 3): every part is optional.\<close>

record chunk =
  chunk_role :: "string option"
  text_fragment :: "string option"
  tool_fragment :: "tool_call_fragment option"
  finish_reason :: "string option"
  error_payload :: "string option"

text \<open>
  What the translator meets while it reads upstream: a chunk, an interval without
  activity, the consumer's disconnection, or the upstream stream raising.
\<close>

datatype upstream = Chunk chunk | Idle_interval | Disconnection | Upstream_raises

datatype stream_event =
    Message_open string
  | Content_block_open nat block_type
  | Content_block_delta nat string
  | Content_block_close nat
  | Message_delta string
  | Message_close
  | Keep_alive
  | Cancelled_event
  | Error_event string

datatype phase = Idle | MessageOpen | Done | Cancelled | Failed

text \<open>
  The per-stream state: the phase, the index the next block will get, the block that is
  open (its index, its type and, for a tool-use block, its call id) and the buffered
  argument fragments of an open tool-use block.
\<close>

record translator_state =
  phase :: phase
  next_index :: nat
  open_block :: "(nat \<times> block_type \<times> string) option"
  buffer :: string

definition initial_state :: translator_state where
  "initial_state = \<lparr> phase = Idle, next_index = 0, open_block = None, buffer = [] \<rparr>"

fun finished :: "phase \<Rightarrow> bool" where
  "finished Done = True"
| "finished Cancelled = True"
| "finished Failed = True"
| "finished _ = False"

text \<open>
  Modelled from the spec: closing the open block, if any. The buffered arguments of a
  tool-use block are flushed as a final delta first.
\<close>

definition close_open :: "translator_state \<Rightarrow> stream_event list" where
  "close_open s =
     (case open_block s of
        None \<Rightarrow> []
      | Some (i, Text_block, cid) \<Rightarrow> [Content_block_close i]
      | Some (i, Tool_use_block, cid) \<Rightarrow> [Content_block_delta i (buffer s), Content_block_close i])"

text \<open>
  Modelled from the spec: opening a block. Any open block is closed, and the new block
  gets the next index.
\<close>

definition open_new ::
  "block_type \<Rightarrow> string \<Rightarrow> string \<Rightarrow> translator_state \<Rightarrow> translator_state \<times> stream_event list" where
  "open_new ty cid buffered s =
     (s\<lparr> open_block := Some (next_index s, ty, cid),
         next_index := Suc (next_index s),
         buffer := buffered \<rparr>,
      close_open s @ [Content_block_open (next_index s) ty])"

text \<open>
  Modelled from the spec: a text fragment is a delta on the open text block; when no
  text block is open, one is opened first.
\<close>

definition on_text :: "string \<Rightarrow> translator_state \<Rightarrow> translator_state \<times> stream_event list" where
  "on_text t s =
     (case open_block s of
        Some (i, Text_block, cid) \<Rightarrow> (s, [Content_block_delta i t])
      | _ \<Rightarrow>
          (case open_new Text_block [] [] s of
             (s', evs) \<Rightarrow> (s', evs @ [Content_block_delta (next_index s) t])))"

text \<open>
  Modelled from the spec: a tool-call fragment is routed by call id. For the id of the
  open tool-use block the fragment is appended to the buffer and emitted as a delta; for
  a new id the open block is closed and a tool-use block is opened at the next index, the
  fragment buffered.
\<close>

definition on_tool ::
  "tool_call_fragment \<Rightarrow> translator_state \<Rightarrow> translator_state \<times> stream_event list" where
  "on_tool f s =
     (case open_block s of
        Some (i, Tool_use_block, cid) \<Rightarrow>
          if cid = call_id f
          then (s\<lparr>buffer := buffer s @ arguments_fragment f\<rparr>,
                [Content_block_delta i (arguments_fragment f)])
          else open_new Tool_use_block (call_id f) (arguments_fragment f) s
      | _ \<Rightarrow> open_new Tool_use_block (call_id f) (arguments_fragment f) s)"

text \<open>
  Modelled from the spec: the ends of a stream. A finish reason closes the open block and
  emits message-delta and message-close; an error payload, the upstream raising and a
  disconnection close the open block and emit one terminal event.
\<close>

definition end_stream ::
  "phase \<Rightarrow> stream_event list \<Rightarrow> translator_state \<Rightarrow> translator_state \<times> stream_event list" where
  "end_stream p terminal s =
     (s\<lparr> phase := p, open_block := None, buffer := [] \<rparr>, close_open s @ terminal)"

text \<open>
  Modelled from the spec: the payload of one chunk while the message is open: its text
  fragment, then its tool-call fragment, then its error payload or finish reason.
\<close>

definition on_payload :: "chunk \<Rightarrow> translator_state \<Rightarrow> translator_state \<times> stream_event list" where
  "on_payload c s =
     (let (s1, e1) = (case text_fragment c of None \<Rightarrow> (s, []) | Some t \<Rightarrow> on_text t s);
          (s2, e2) = (case tool_fragment c of None \<Rightarrow> (s1, []) | Some f \<Rightarrow> on_tool f s1);
          (s3, e3) =
            (case error_payload c of
               Some e \<Rightarrow> end_stream Failed [Error_event e] s2
             | None \<Rightarrow>
                 (case finish_reason c of
                    Some r \<Rightarrow> end_stream Done [Message_delta r, Message_close] s2
                  | None \<Rightarrow> (s2, [])))
      in (s3, e1 @ e2 @ e3))"

text \<open>
  Modelled from the spec: one step of the state machine. Before the first chunk that
  carries a role nothing but keep-alives is emitted; that chunk opens the message and its
  payload is handled as any later one. Once the stream has ended, every input is a no-op.
\<close>

definition step :: "translator_state \<Rightarrow> upstream \<Rightarrow> translator_state \<times> stream_event list" where
  "step s u =
     (if finished (phase s) then (s, [])
      else (case u of
              Idle_interval \<Rightarrow> (s, [Keep_alive])
            | Disconnection \<Rightarrow> end_stream Cancelled [Cancelled_event] s
            | Upstream_raises \<Rightarrow> end_stream Failed [Error_event ''UpstreamStreamError''] s
            | Chunk c \<Rightarrow>
                (if phase s = Idle
                 then (case chunk_role c of
                         None \<Rightarrow> (s, [])
                       | Some r \<Rightarrow>
                           (case on_payload c (s\<lparr>phase := MessageOpen\<rparr>) of
                              (s', evs) \<Rightarrow> (s', Message_open r # evs)))
                 else on_payload c s)))"

text \<open>
  Modelled from the spec: the translator over what it meets upstream, in order; the
  events of each step are appended.
\<close>

fun run :: "translator_state \<Rightarrow> upstream list \<Rightarrow> translator_state \<times> stream_event list" where
  "run s [] = (s, [])"
| "run s (u # us) =
     (case step s u of
        (s1, e1) \<Rightarrow> (case run s1 us of (s2, e2) \<Rightarrow> (s2, e1 @ e2)))"

text \<open>The indices of the block-open and of the block-close events of a sequence, in order.\<close>

fun opened_indices :: "stream_event list \<Rightarrow> nat list" where
  "opened_indices [] = []"
| "opened_indices (Content_block_open i ty # evs) = i # opened_indices evs"
| "opened_indices (ev # evs) = opened_indices evs"

fun closed_indices :: "stream_event list \<Rightarrow> nat list" where
  "closed_indices [] = []"
| "closed_indices (Content_block_close i # evs) = i # closed_indices evs"
| "closed_indices (ev # evs) = closed_indices evs"

text \<open>The index of the open block, as a list.\<close>

definition pending :: "translator_state \<Rightarrow> nat list" where
  "pending s = (case open_block s of None \<Rightarrow> [] | Some (i, ty, cid) \<Rightarrow> [i])"

text \<open>The open block is the one opened last.\<close>

definition well_formed :: "translator_state \<Rightarrow> bool" where
  "well_formed s =
     ((case open_block s of None \<Rightarrow> True | Some (i, ty, cid) \<Rightarrow> Suc i = next_index s)
      \<and> (finished (phase s) \<longrightarrow> open_block s = None))"

definition text_chunk :: "string option \<Rightarrow> string \<Rightarrow> chunk" where
  "text_chunk r t =
     \<lparr> chunk_role = r, text_fragment = Some t, tool_fragment = None,
       finish_reason = None, error_payload = None \<rparr>"

definition tool_chunk :: "string \<Rightarrow> string \<Rightarrow> chunk" where
  "tool_chunk cid args =
     \<lparr> chunk_role = None, text_fragment = None,
       tool_fragment = Some \<lparr> call_id = cid, name_fragment = ''get_weather'',
                                arguments_fragment = args \<rparr>,
       finish_reason = None, error_payload = None \<rparr>"

definition finish_chunk :: "string \<Rightarrow> chunk" where
  "finish_chunk r =
     \<lparr> chunk_role = None, text_fragment = None, tool_fragment = None,
       finish_reason = Some r, error_payload = None \<rparr>"

text \<open>
  What one operation adds to the events: the blocks it opens get the indices from the
  state's next index on, and every block open before or opened by it is closed by it or
  still open after it.
\<close>

definition linked :: "translator_state \<Rightarrow> bool" where
  "linked s = (case open_block s of None \<Rightarrow> True | Some (i, ty, cid) \<Rightarrow> Suc i = next_index s)"

definition tracks :: "translator_state \<Rightarrow> translator_state \<times> stream_event list \<Rightarrow> bool" where
  "tracks s r =
     (linked (fst r) \<and> next_index s \<le> next_index (fst r) \<and>
      opened_indices (snd r) = [next_index s ..< next_index (fst r)] \<and>
      pending s @ opened_indices (snd r) = closed_indices (snd r) @ pending (fst r))"

text \<open>
  The scenario of section 8: three text fragments, the first with the role, and a finish
  chunk. And a stream that opens a text block and then a tool-use block.
\<close>

definition text_scenario :: "upstream list" where
  "text_scenario =
     [Chunk (text_chunk (Some ''assistant'') ''Hel''), Chunk (text_chunk None ''lo''),
      Chunk (text_chunk None ''!''), Chunk (finish_chunk ''stop'')]"

definition tool_scenario :: "upstream list" where
  "tool_scenario =
     [Chunk (text_chunk (Some ''assistant'') ''Hel''), Chunk (tool_chunk ''call_1'' ''{}'')]"

section \<open>Theorems\<close>

subsection \<open>Token estimate\<close>

lemma count_system_blocks_sum:
  "list_all (\<lambda>b. text_attr b \<noteq> PyNone) bs \<Longrightarrow>
   count_system_blocks n bs = Inr (n + sum_list (map text_len bs))"
  by (induction bs arbitrary: n) (auto split: py_attr.splits)

lemma count_system_sum:
  "system_text_typed sys \<Longrightarrow> count_system n sys = Inr (n + system_chars sys)"
  by (cases "(n, sys)" rule: count_system.cases) (auto simp: count_system_blocks_sum)

lemma count_message_blocks_sum:
  "count_message_blocks n bs = n + sum_list (map text_len bs)"
  by (induction bs arbitrary: n) (auto split: py_attr.splits)

lemma count_messages_sum:
  "count_messages n msgs = n + sum_list (map message_chars msgs)"
  by (induction msgs arbitrary: n)
     (auto simp: count_message_blocks_sum split: option.splits message_content.splits)

lemma text_len_filter:
  "sum_list (map text_len (filter is_text_bearing bs)) = sum_list (map text_len bs)"
  by (induction bs) (auto split: py_attr.splits)

lemma message_chars_text_blocks_only:
  "message_chars (text_blocks_only msg) = message_chars msg"
  by (auto simp: text_len_filter split: option.splits message_content.splits)

text \<open>
  C5. For every request whose system blocks carry a string text (or none), as the
  request type declares, \<open>count_tokens\<close> returns \<open>{"input_tokens": n}\<close> with \<open>n\<close> the
  total character count of the system prompt text and of every message's string content or
  text-bearing blocks, integer-divided by 4 with a floor of 1; \<open>n\<close> is at least 1,
  and removing the blocks that bear no text from every message changes nothing.
\<close>

theorem count_tokens_estimate:
  assumes "system_text_typed (tc_system request)"
  shows "count_tokens request =
           (Return (JDict [(''input_tokens'', JInt (max 1 (total_text_chars request div 4)))]), [])
         \<and> 1 \<le> max 1 (total_text_chars request div 4)
         \<and> count_tokens (request\<lparr>tc_messages := map text_blocks_only (tc_messages request)\<rparr>)
             = count_tokens request"
proof -
  have a: "count_tokens_body r =
      Inr (JDict [(''input_tokens'', JInt (max 1 (total_text_chars r div 4)))])"
    if "system_text_typed (tc_system r)" for r
    using that by (simp add: count_tokens_body_def count_system_sum count_messages_sum total_text_chars_def)
  have b: "total_text_chars (request\<lparr>tc_messages := map text_blocks_only (tc_messages request)\<rparr>)
      = total_text_chars request"
    unfolding total_text_chars_def
    by (simp add: comp_def message_chars_text_blocks_only del: message_chars.simps text_blocks_only.simps)
  show ?thesis
    using a[OF assms] a[of "request\<lparr>tc_messages := map text_blocks_only (tc_messages request)\<rparr>"] assms b
    by (simp add: count_tokens_def)
qed

theorem count_tokens_estimate_witness:
  "system_text_typed (tc_system example_count_request)
   \<and> count_tokens example_count_request = (Return (JDict [(''input_tokens'', JInt 3)]), [])"
proof -
  have h: "system_text_typed (tc_system example_count_request)"
    by (simp add: example_count_request_def)
  have t: "total_text_chars example_count_request = 12"
    by (simp add: example_count_request_def total_text_chars_def)
  show ?thesis using h count_tokens_estimate [OF h] by (simp add: t)
qed

subsection \<open>Client key validation\<close>




lemma post_v1_messages_rejected:
  "fst (validate_api_key cfg x_api_key authorization) = Raise e \<Longrightarrow>
   post_v1_messages c cfg x_api_key authorization request hs
     = (Raise e, snd (validate_api_key cfg x_api_key authorization))"
  by (cases "validate_api_key cfg x_api_key authorization") (simp add: post_v1_messages_def)

lemma post_v1_messages_accepted:
  "fst (validate_api_key cfg x_api_key authorization) = Return u \<Longrightarrow>
   fst (post_v1_messages c cfg x_api_key authorization request hs)
     = fst (create_message c cfg request hs)"
  by (cases "validate_api_key cfg x_api_key authorization")
     (simp add: post_v1_messages_def split: prod.split)


text \<open>
  \<open>authorization.replace("Bearer ", "")\<close> removes every occurrence, not the prefix alone:
  a value with a second \<open>Bearer \<close> inside is accepted for a key it does not carry.
\<close>

lemma validate_api_key_strips_every_bearer:
  "claimed_rejects example_config None (Some ''Bearer seBearer cret'')
   \<and> validate_api_key example_config None (Some ''Bearer seBearer cret'') = (Return (), [])"
  by code_simp



subsection \<open>Failures of \<open>create_message\<close>\<close>

lemma envelope_fields_error_envelope:
  "envelope_fields (error_envelope kind text) = Some (kind, text)"
  by (auto simp: envelope_fields_def error_envelope_def)

lemma outer_except_fst: "fst (outer_except c cfg e tr) = Raise (raised_again c cfg e)"
  by (cases e) simp_all

lemma raised_again_http: "\<exists>s d. raised_again c cfg e = HTTPException s d"
  by (cases e) simp_all

lemma create_message_convert_fails:
  "convert_claude_to_openai c request = Inl e \<Longrightarrow>
   fst (create_message c cfg request hs) = Raise (raised_again c cfg e)"
  by (simp add: create_message_def outer_except_fst)

lemma create_message_disconnected:
  "convert_claude_to_openai c request = Inr q \<Longrightarrow> is_disconnected c \<Longrightarrow>
   create_message c cfg request hs =
     (Raise (HTTPException 499 ''Client disconnected''),
      [Log (Debug_processing (model request) (stream request)),
       Log (Debug_headers (masked_headers hs)),
       Log (Debug_openai_request q)])"
  by (simp add: create_message_def)

lemma create_message_streaming:
  "convert_claude_to_openai c request = Inr q \<Longrightarrow> \<not> is_disconnected c \<Longrightarrow> stream request \<Longrightarrow>
   fst (create_message c cfg request hs) =
     (case create_chat_completion_stream c (select_client cfg q) q (uuid4 c) of
        Inr u \<Rightarrow> Return (StreamingResponse u request (select_client cfg q) (uuid4 c)
                          ''text/event-stream'' stream_headers)
      | Inl (HTTPException s d) \<Rightarrow>
          Return (JSONResponse s
            (error_envelope ''api_error'' (classify_openai_error c (select_client cfg q) d)))
      | Inl (Exception m) \<Rightarrow> Raise (raised_again c cfg (Exception m)))"
  by (simp add: create_message_def streaming_branch_def error_envelope_def Let_def
      split: sum.split exn.split)

lemma create_message_non_streaming:
  "convert_claude_to_openai c request = Inr q \<Longrightarrow> \<not> is_disconnected c \<Longrightarrow> \<not> stream request \<Longrightarrow>
   fst (create_message c cfg request hs) =
     (case create_chat_completion c (select_client cfg q) q (Some (uuid4 c)) of
        Inl e \<Rightarrow> Raise (raised_again c cfg e)
      | Inr resp \<Rightarrow>
          (case convert_openai_to_claude_response c resp request of
             Inl e \<Rightarrow> Raise (raised_again c cfg e)
           | Inr r \<Rightarrow> Return (Plain r)))"
  by (simp add: create_message_def non_streaming_branch_def outer_except_fst Let_def
      split: sum.split)

lemma create_message_outcomes:
  "(\<exists>e. fst (create_message c cfg request hs) = Raise (raised_again c cfg e))
   \<or> fst (create_message c cfg request hs) = Raise (HTTPException 499 ''Client disconnected'')
   \<or> (stream request \<and>
       (\<exists>q s d. convert_claude_to_openai c request = Inr q \<and>
          create_chat_completion_stream c (select_client cfg q) q (uuid4 c) = Inl (HTTPException s d) \<and>
          fst (create_message c cfg request hs) =
            Return (JSONResponse s
              (error_envelope ''api_error'' (classify_openai_error c (select_client cfg q) d)))))
   \<or> (\<exists>u cl i m h. fst (create_message c cfg request hs) = Return (StreamingResponse u request cl i m h))
   \<or> (\<exists>j. fst (create_message c cfg request hs) = Return (Plain j))"
proof (cases "convert_claude_to_openai c request")
  case (Inl e)
  then show ?thesis using create_message_convert_fails by blast
next
  case (Inr q)
  show ?thesis
  proof (cases "is_disconnected c")
    case True
    then show ?thesis using create_message_disconnected[OF Inr] by simp
  next
    case nd: False
    show ?thesis
    proof (cases "stream request")
      case True
      show ?thesis
      proof (cases "create_chat_completion_stream c (select_client cfg q) q (uuid4 c)")
        case (Inr u)
        then show ?thesis using create_message_streaming[OF \<open>convert_claude_to_openai c request = Inr q\<close> nd True]
          by simp
      next
        case (Inl e)
        then show ?thesis
          using create_message_streaming[OF Inr nd True, of cfg hs] True Inr
          by (cases e) (auto simp del: raised_again.simps)
      qed
    next
      case False
      show ?thesis
        using create_message_non_streaming[OF Inr nd False, of cfg hs]
        by (auto split: sum.splits)
    qed
  qed
qed

lemma rate_limited_simps:
  "convert_claude_to_openai rate_limited r = Inr [(''model'', JStr ''gpt-4o''), (''stream'', JBool (stream r))]"
  "is_disconnected rate_limited = False"
  "create_chat_completion_stream rate_limited cl q i = Inl (HTTPException 429 ''Rate limit exceeded'')"
  "create_chat_completion rate_limited cl q j = Inl (HTTPException 429 ''Rate limit exceeded'')"
  "classify_openai_error rate_limited cl t = t"
  by (simp_all add: rate_limited_def failing_backend_def)

text \<open>
  C1 as stated fails on the non-streaming path: when the backend call raises
  \<open>HTTPException(429)\<close>, the handler raises it again and the caller receives
  \<open>{"detail": ...}\<close>, which is not the error envelope.
\<close>

theorem non_streaming_error_not_envelope:
  "fastapi_reply (fst (create_message (failing_backend (HTTPException 429 ''Rate limit exceeded''))
       example_config (example_request False) []))
     = (429, Json_body (JDict [(''detail'', JStr ''Rate limit exceeded'')]))
   \<and> \<not> body_is_error_envelope (Json_body (JDict [(''detail'', JStr ''Rate limit exceeded'')]))"
  by (simp add: create_message_def failing_backend_def example_request_def
      non_streaming_branch_def is_error_envelope_def envelope_fields_def body_allowed_def)

text \<open>
  C1, as amended. Every failure of \<open>create_message\<close> reaches the caller in one of two
  shapes. When creating the backend stream raises an \<open>HTTPException\<close> on the streaming
  path, the handler returns a \<open>JSONResponse\<close> with that exception's status whose content is
  the envelope \<open>{"type": "error", "error": {"type": "api_error", "message": text}}\<close>, the
  text being the client's classification of the exception's detail; a \<open>JSONResponse\<close>
  leaves the handler in no other case. Every other failure leaves the handler as an
  \<open>HTTPException\<close>: a failing request conversion, a failing backend call on the
  non-streaming path and a failing response conversion are raised again if they are an
  \<open>HTTPException\<close> and replaced by status 500 with the classified message otherwise, a
  non-HTTP exception from creating the stream is replaced likewise, and a disconnected
  client gives status 499. A raised \<open>HTTPException\<close> is answered with \<open>{"detail": detail}\<close>,
  or with an empty body where the status allows none, never with the envelope. A plain
  value or a stream is returned only when every call succeeded.
\<close>

theorem create_message_failure_shapes:
  "(\<forall>s j. fst (create_message c cfg request hs) = Return (JSONResponse s j) \<longrightarrow>
      stream request \<and> (\<exists>text. j = error_envelope ''api_error'' text))
   \<and> (\<forall>e. fst (create_message c cfg request hs) = Raise e \<longrightarrow>
         (\<exists>s d. e = HTTPException s d \<and>
            fastapi_reply (Raise e) =
              (s, if body_allowed s then Json_body (JDict [(''detail'', JStr d)]) else No_body))
         \<and> \<not> body_is_error_envelope (snd (fastapi_reply (Raise e))))
   \<and> (\<forall>q s d. convert_claude_to_openai c request = Inr q \<and> \<not> is_disconnected c \<and>
         stream request \<and>
         create_chat_completion_stream c (select_client cfg q) q (uuid4 c) = Inl (HTTPException s d) \<longrightarrow>
         fst (create_message c cfg request hs) =
           Return (JSONResponse s (error_envelope ''api_error''
                 (classify_openai_error c (select_client cfg q) d))) \<and>
         fastapi_reply (fst (create_message c cfg request hs)) =
           (s, Json_body (error_envelope ''api_error''
                 (classify_openai_error c (select_client cfg q) d))))
   \<and> (\<forall>q e. convert_claude_to_openai c request = Inr q \<and> \<not> is_disconnected c \<and>
         \<not> stream request \<and>
         create_chat_completion c (select_client cfg q) q (Some (uuid4 c)) = Inl e \<longrightarrow>
         fst (create_message c cfg request hs) = Raise (raised_again c cfg e))
   \<and> (\<forall>e. convert_claude_to_openai c request = Inl e \<longrightarrow>
         fst (create_message c cfg request hs) = Raise (raised_again c cfg e))
   \<and> (\<forall>q. convert_claude_to_openai c request = Inr q \<and> is_disconnected c \<longrightarrow>
         fst (create_message c cfg request hs) = Raise (HTTPException 499 ''Client disconnected''))
   \<and> (\<forall>q m. convert_claude_to_openai c request = Inr q \<and> \<not> is_disconnected c \<and>
         stream request \<and>
         create_chat_completion_stream c (select_client cfg q) q (uuid4 c) = Inl (Exception m) \<longrightarrow>
         fst (create_message c cfg request hs) =
           Raise (HTTPException 500 (classify_openai_error c (main_client cfg) m)))
   \<and> (\<forall>q resp e. convert_claude_to_openai c request = Inr q \<and> \<not> is_disconnected c \<and>
         \<not> stream request \<and>
         create_chat_completion c (select_client cfg q) q (Some (uuid4 c)) = Inr resp \<and>
         convert_openai_to_claude_response c resp request = Inl e \<longrightarrow>
         fst (create_message c cfg request hs) = Raise (raised_again c cfg e))
   \<and> (\<forall>s d. raised_again c cfg (HTTPException s d) = HTTPException s d)
   \<and> (\<forall>m. raised_again c cfg (Exception m) =
         HTTPException 500 (classify_openai_error c (main_client cfg) m))
   \<and> (\<forall>j. fst (create_message c cfg request hs) = Return (Plain j) \<longrightarrow>
         \<not> stream request \<and>
         (\<exists>q resp. convert_claude_to_openai c request = Inr q \<and> \<not> is_disconnected c \<and>
            create_chat_completion c (select_client cfg q) q (Some (uuid4 c)) = Inr resp \<and>
            convert_openai_to_claude_response c resp request = Inr j))
   \<and> (\<forall>u r cl i m h.
         fst (create_message c cfg request hs) = Return (StreamingResponse u r cl i m h) \<longrightarrow>
         stream request \<and>
         (\<exists>q. convert_claude_to_openai c request = Inr q \<and> \<not> is_disconnected c \<and>
            create_chat_completion_stream c (select_client cfg q) q (uuid4 c) = Inr u))"
proof -
  let ?r = "fst (create_message c cfg request hs)"
  have p1: "stream request \<and> (\<exists>text. j = error_envelope ''api_error'' text)"
    if "?r = Return (JSONResponse s j)" for s j
    using that create_message_outcomes[of c cfg request hs] by auto
  have p2: "(\<exists>s d. e = HTTPException s d \<and>
        fastapi_reply (Raise e) =
          (s, if body_allowed s then Json_body (JDict [(''detail'', JStr d)]) else No_body))
      \<and> \<not> body_is_error_envelope (snd (fastapi_reply (Raise e)))"
    if r: "?r = Raise e" for e
  proof -
    have "(\<exists>e'. e = raised_again c cfg e') \<or> e = HTTPException 499 ''Client disconnected''"
      using r create_message_outcomes[of c cfg request hs] by auto
    then obtain s d where "e = HTTPException s d"
      using raised_again_http by metis
    then show ?thesis by (simp add: is_error_envelope_def envelope_fields_def)
  qed
  have p3: "?r = Return (JSONResponse s (error_envelope ''api_error''
          (classify_openai_error c (select_client cfg q) d))) \<and>
      fastapi_reply ?r =
        (s, Json_body (error_envelope ''api_error'' (classify_openai_error c (select_client cfg q) d)))"
    if "convert_claude_to_openai c request = Inr q \<and> \<not> is_disconnected c \<and> stream request \<and>
      create_chat_completion_stream c (select_client cfg q) q (uuid4 c) = Inl (HTTPException s d)"
    for q s d
    using that create_message_streaming[of c request q cfg hs] by simp
  have p4: "?r = Raise (raised_again c cfg e)"
    if "convert_claude_to_openai c request = Inr q \<and> \<not> is_disconnected c \<and> \<not> stream request \<and>
      create_chat_completion c (select_client cfg q) q (Some (uuid4 c)) = Inl e" for q e
    using that create_message_non_streaming[of c request q cfg hs] by simp
  have p5: "?r = Raise (raised_again c cfg e)"
    if "convert_claude_to_openai c request = Inl e" for e
    using that by (rule create_message_convert_fails)
  have p6: "?r = Raise (HTTPException 499 ''Client disconnected'')"
    if "convert_claude_to_openai c request = Inr q \<and> is_disconnected c" for q
    using that create_message_disconnected[of c request q cfg hs] by simp
  have p7: "?r = Raise (HTTPException 500 (classify_openai_error c (main_client cfg) m))"
    if "convert_claude_to_openai c request = Inr q \<and> \<not> is_disconnected c \<and> stream request \<and>
      create_chat_completion_stream c (select_client cfg q) q (uuid4 c) = Inl (Exception m)"
    for q m
    using that create_message_streaming[of c request q cfg hs] by simp
  have p8: "?r = Raise (raised_again c cfg e)"
    if "convert_claude_to_openai c request = Inr q \<and> \<not> is_disconnected c \<and> \<not> stream request \<and>
      create_chat_completion c (select_client cfg q) q (Some (uuid4 c)) = Inr resp \<and>
      convert_openai_to_claude_response c resp request = Inl e" for q resp e
    using that create_message_non_streaming[of c request q cfg hs] by simp
  have p9: "raised_again c cfg (HTTPException s d) = HTTPException s d" for s d
    by simp
  have p10: "raised_again c cfg (Exception m) =
      HTTPException 500 (classify_openai_error c (main_client cfg) m)" for m
    by simp
  have p11: "\<not> stream request \<and>
      (\<exists>q resp. convert_claude_to_openai c request = Inr q \<and> \<not> is_disconnected c \<and>
         create_chat_completion c (select_client cfg q) q (Some (uuid4 c)) = Inr resp \<and>
         convert_openai_to_claude_response c resp request = Inr j)"
    if r: "?r = Return (Plain j)" for j
  proof (cases "convert_claude_to_openai c request")
    case (Inl e)
    then show ?thesis using r create_message_convert_fails[OF Inl, of cfg hs] by simp
  next
    case (Inr q)
    have nd: "\<not> is_disconnected c"
      using r create_message_disconnected[OF Inr, of cfg hs] by auto
    have ns: "\<not> stream request"
      using r create_message_streaming[OF Inr nd, of cfg hs]
      by (auto split: sum.splits exn.splits)
    show ?thesis
      using r Inr nd ns create_message_non_streaming[OF Inr nd ns, of cfg hs]
      by (auto split: sum.splits)
  qed
  have p12: "stream request \<and>
      (\<exists>q. convert_claude_to_openai c request = Inr q \<and> \<not> is_disconnected c \<and>
         create_chat_completion_stream c (select_client cfg q) q (uuid4 c) = Inr u)"
    if r: "?r = Return (StreamingResponse u r' cl i m h)" for u r' cl i m h
  proof (cases "convert_claude_to_openai c request")
    case (Inl e)
    then show ?thesis using r create_message_convert_fails[OF Inl, of cfg hs] by simp
  next
    case (Inr q)
    have nd: "\<not> is_disconnected c"
      using r create_message_disconnected[OF Inr, of cfg hs] by auto
    have st: "stream request"
    proof (rule ccontr)
      assume ns: "\<not> stream request"
      show False
        using r create_message_non_streaming[OF Inr nd ns, of cfg hs]
        by (auto split: sum.splits)
    qed
    show ?thesis
      using r Inr nd st create_message_streaming[OF Inr nd st, of cfg hs]
      by (auto split: sum.splits exn.splits)
  qed
  have c1: "(\<forall>s j. fst (create_message c cfg request hs) = Return (JSONResponse s j) \<longrightarrow>
      stream request \<and> (\<exists>text. j = error_envelope ''api_error'' text))"
    using p1 by blast
  have c2: "(\<forall>e. fst (create_message c cfg request hs) = Raise e \<longrightarrow>
         (\<exists>s d. e = HTTPException s d \<and>
            fastapi_reply (Raise e) =
              (s, if body_allowed s then Json_body (JDict [(''detail'', JStr d)]) else No_body))
         \<and> \<not> body_is_error_envelope (snd (fastapi_reply (Raise e))))"
    using p2 by blast
  have c3: "(\<forall>q s d. convert_claude_to_openai c request = Inr q \<and> \<not> is_disconnected c \<and>
         stream request \<and>
         create_chat_completion_stream c (select_client cfg q) q (uuid4 c) = Inl (HTTPException s d) \<longrightarrow>
         fst (create_message c cfg request hs) =
           Return (JSONResponse s (error_envelope ''api_error''
                 (classify_openai_error c (select_client cfg q) d))) \<and>
         fastapi_reply (fst (create_message c cfg request hs)) =
           (s, Json_body (error_envelope ''api_error''
                 (classify_openai_error c (select_client cfg q) d))))"
    using p3 by blast
  have c4: "(\<forall>q e. convert_claude_to_openai c request = Inr q \<and> \<not> is_disconnected c \<and>
         \<not> stream request \<and>
         create_chat_completion c (select_client cfg q) q (Some (uuid4 c)) = Inl e \<longrightarrow>
         fst (create_message c cfg request hs) = Raise (raised_again c cfg e))"
    using p4 by blast
  have c5: "(\<forall>e. convert_claude_to_openai c request = Inl e \<longrightarrow>
         fst (create_message c cfg request hs) = Raise (raised_again c cfg e))"
    using p5 by blast
  have c6: "(\<forall>q. convert_claude_to_openai c request = Inr q \<and> is_disconnected c \<longrightarrow>
         fst (create_message c cfg request hs) = Raise (HTTPException 499 ''Client disconnected''))"
    using p6 by blast
  have c7: "(\<forall>q m. convert_claude_to_openai c request = Inr q \<and> \<not> is_disconnected c \<and>
         stream request \<and>
         create_chat_completion_stream c (select_client cfg q) q (uuid4 c) = Inl (Exception m) \<longrightarrow>
         fst (create_message c cfg request hs) =
           Raise (HTTPException 500 (classify_openai_error c (main_client cfg) m)))"
    using p7 by blast
  have c8: "(\<forall>q resp e. convert_claude_to_openai c request = Inr q \<and> \<not> is_disconnected c \<and>
         \<not> stream request \<and>
         create_chat_completion c (select_client cfg q) q (Some (uuid4 c)) = Inr resp \<and>
         convert_openai_to_claude_response c resp request = Inl e \<longrightarrow>
         fst (create_message c cfg request hs) = Raise (raised_again c cfg e))"
    using p8 by blast
  have c9: "(\<forall>s d. raised_again c cfg (HTTPException s d) = HTTPException s d)"
    using p9 by blast
  have c10: "(\<forall>m. raised_again c cfg (Exception m) =
         HTTPException 500 (classify_openai_error c (main_client cfg) m))"
    using p10 by blast
  have c11: "(\<forall>j. fst (create_message c cfg request hs) = Return (Plain j) \<longrightarrow>
         \<not> stream request \<and>
         (\<exists>q resp. convert_claude_to_openai c request = Inr q \<and> \<not> is_disconnected c \<and>
            create_chat_completion c (select_client cfg q) q (Some (uuid4 c)) = Inr resp \<and>
            convert_openai_to_claude_response c resp request = Inr j))"
    using p11 by blast
  have c12: "(\<forall>u r cl i m h.
         fst (create_message c cfg request hs) = Return (StreamingResponse u r cl i m h) \<longrightarrow>
         stream request \<and>
         (\<exists>q. convert_claude_to_openai c request = Inr q \<and> \<not> is_disconnected c \<and>
            create_chat_completion_stream c (select_client cfg q) q (uuid4 c) = Inr u))"
    using p12 by blast
  show ?thesis
    using c1 c2 c3 c4 c5 c6 c7 c8 c9 c10 c11 c12 by - (intro conjI; assumption)
qed

lemma malformed_response_simps:
  "convert_claude_to_openai malformed_response r
     = Inr [(''model'', JStr ''gpt-4o''), (''stream'', JBool (stream r))]"
  "is_disconnected malformed_response = False"
  "create_chat_completion malformed_response cl q i = Inr [(''id'', JStr ''chatcmpl-1'')]"
  "convert_openai_to_claude_response malformed_response resp r
     = Inl (Exception ''response has no choices'')"
  "classify_openai_error malformed_response cl t = t"
  by (simp_all add: malformed_response_def rate_limited_def failing_backend_def)

lemma connection_refused_simps:
  "convert_claude_to_openai connection_refused r
     = Inr [(''model'', JStr ''gpt-4o''), (''stream'', JBool (stream r))]"
  "is_disconnected connection_refused = False"
  "create_chat_completion_stream connection_refused cl q i
     = Inl (Exception ''[Errno 111] Connection refused'')"
  "create_chat_completion connection_refused cl q j
     = Inl (Exception ''[Errno 111] Connection refused'')"
  "classify_openai_error connection_refused cl t = t"
  by (simp_all add: connection_refused_def failing_backend_def)

theorem create_message_failure_shapes_witness:
  "fastapi_reply (fst (create_message rate_limited example_config (example_request True) []))
     = (429, Json_body (error_envelope ''api_error'' ''Rate limit exceeded''))
   \<and> fst (create_message rate_limited example_config (example_request False) [])
     = Raise (HTTPException 429 ''Rate limit exceeded'')
   \<and> fst (create_message connection_refused example_config (example_request True) [])
     = Raise (HTTPException 500 ''[Errno 111] Connection refused'')
   \<and> fst (create_message malformed_response example_config (example_request False) [])
     = Raise (HTTPException 500 ''response has no choices'')
   \<and> fst (create_message rejecting_converter example_config (example_request False) [])
     = Raise (HTTPException 400 ''messages: field required'')"
proof -
  have s: "stream (example_request True)" "\<not> stream (example_request False)"
    by (simp_all add: example_request_def)
  have a: "fastapi_reply (fst (create_message rate_limited example_config (example_request True) []))
     = (429, Json_body (error_envelope ''api_error'' ''Rate limit exceeded''))"
    using create_message_failure_shapes
      [of rate_limited example_config "example_request True" "[]"] s
    by (simp add: rate_limited_simps)
  have b: "fst (create_message rate_limited example_config (example_request False) [])
     = Raise (raised_again rate_limited example_config (HTTPException 429 ''Rate limit exceeded''))"
    using create_message_failure_shapes
      [of rate_limited example_config "example_request False" "[]"] s
    by (simp add: rate_limited_simps del: raised_again.simps)
  have d: "fst (create_message connection_refused example_config (example_request True) [])
     = Raise (HTTPException 500 (classify_openai_error connection_refused
         (main_client example_config) ''[Errno 111] Connection refused''))"
    using create_message_failure_shapes
      [of connection_refused example_config "example_request True" "[]"] s
    by (simp add: connection_refused_simps del: raised_again.simps)
  have e: "fst (create_message malformed_response example_config (example_request False) [])
     = Raise (raised_again malformed_response example_config
         (Exception ''response has no choices''))"
    using create_message_failure_shapes
      [of malformed_response example_config "example_request False" "[]"] s
    by (simp add: malformed_response_simps del: raised_again.simps)
  have f: "fst (create_message rejecting_converter example_config (example_request False) [])
     = Raise (raised_again rejecting_converter example_config
         (HTTPException 400 ''messages: field required''))"
    using create_message_failure_shapes
      [of rejecting_converter example_config "example_request False" "[]"]
    by (simp add: rejecting_converter_def del: raised_again.simps)
  show ?thesis
    using a b d e f by (simp add: connection_refused_simps malformed_response_simps)
qed

text \<open>
  C3 as stated fails: for a backend failure with status 429 the envelope's \<open>error.type\<close> is
  \<open>api_error\<close>, where the taxonomy's kind for 429 is \<open>rate_limit\<close>.
\<close>

theorem envelope_kind_rate_limit_counterexample:
  "reply_kind (fst (create_message rate_limited example_config (example_request True) []))
     = Some ''api_error''
   \<and> classified_kind 429 = Some ''rate_limit''"
  by (simp add: create_message_def rate_limited_def failing_backend_def example_request_def
      streaming_branch_def envelope_fields_def classified_kind_def)

text \<open>
  C3, as amended. Every error envelope \<open>create_message\<close> returns carries the fixed kind
  \<open>api_error\<close> in \<open>error.type\<close>; the backend failure shows in the HTTP status, which is the
  status of the \<open>HTTPException\<close> that creating the stream raised, and in the message, which
  is the client's classification of that exception's detail.
\<close>

theorem envelope_kind_is_api_error:
  assumes "fst (create_message c cfg request hs) = Return (JSONResponse s j)"
  shows "reply_kind (fst (create_message c cfg request hs)) = Some ''api_error''
         \<and> (\<exists>q d. convert_claude_to_openai c request = Inr q \<and>
               create_chat_completion_stream c (select_client cfg q) q (uuid4 c)
                 = Inl (HTTPException s d) \<and>
               envelope_fields j
                 = Some (''api_error'', classify_openai_error c (select_client cfg q) d))"
  using assms create_message_outcomes[of c cfg request hs]
  by (auto simp: envelope_fields_error_envelope simp del: raised_again.simps)

theorem envelope_kind_is_api_error_witness:
  "fst (create_message rate_limited example_config (example_request True) [])
     = Return (JSONResponse 429 (error_envelope ''api_error'' ''Rate limit exceeded''))
   \<and> reply_kind (fst (create_message rate_limited example_config (example_request True) []))
     = Some ''api_error''"
proof -
  have h: "fst (create_message rate_limited example_config (example_request True) [])
     = Return (JSONResponse 429 (error_envelope ''api_error'' ''Rate limit exceeded''))"
    by (simp add: create_message_def rate_limited_def failing_backend_def example_request_def
      streaming_branch_def error_envelope_def)
  show ?thesis using h envelope_kind_is_api_error [OF h] by simp
qed

subsection \<open>A client that has disconnected\<close>

lemma outer_except_snd:
  "filter is_backend_call (snd (outer_except c cfg e tr)) = filter is_backend_call tr"
  by (cases e) simp_all

text \<open>
  C4 as stated fails: with the client already disconnected the handler does not exit
  silently, it raises \<open>HTTPException(499)\<close>, which is answered with the body
  \<open>{"detail": "Client disconnected"}\<close>.
\<close>

theorem disconnected_reply_counterexample:
  "fastapi_reply (fst (create_message disconnected_client example_config (example_request False) []))
     = (499, Json_body (JDict [(''detail'', JStr ''Client disconnected'')]))"
  by (simp add: create_message_def disconnected_client_def rate_limited_def failing_backend_def
      body_allowed_def)

text \<open>
  C4, as amended. When the client has already disconnected, \<open>create_message\<close> calls no
  backend client and ends by raising an \<open>HTTPException\<close>; if the request converted, that
  is \<open>HTTPException(499, "Client disconnected")\<close> after the three debug lines, answered
  with status 499 and the body \<open>{"detail": "Client disconnected"}\<close>.
\<close>

theorem disconnected_aborts:
  assumes "is_disconnected c"
  shows "(\<exists>s d. fst (create_message c cfg request hs) = Raise (HTTPException s d))
         \<and> filter is_backend_call (snd (create_message c cfg request hs)) = []
         \<and> (\<forall>q. convert_claude_to_openai c request = Inr q \<longrightarrow>
               create_message c cfg request hs =
                 (Raise (HTTPException 499 ''Client disconnected''),
                  [Log (Debug_processing (model request) (stream request)),
                   Log (Debug_headers (masked_headers hs)),
                   Log (Debug_openai_request q)])
               \<and> fastapi_reply (fst (create_message c cfg request hs)) =
                   (499, Json_body (JDict [(''detail'', JStr ''Client disconnected'')])))"
proof (cases "convert_claude_to_openai c request")
  case (Inl e)
  have "fst (create_message c cfg request hs) = Raise (raised_again c cfg e)"
    using create_message_convert_fails[OF Inl] .
  moreover have "filter is_backend_call (snd (create_message c cfg request hs)) = []"
    using Inl by (simp add: create_message_def outer_except_snd)
  ultimately show ?thesis using Inl raised_again_http[of c cfg e] by auto
next
  case (Inr q)
  show ?thesis
    using create_message_disconnected[OF Inr assms, of cfg hs] Inr by (simp add: body_allowed_def)
qed

theorem disconnected_aborts_witness:
  "is_disconnected disconnected_client
   \<and> create_message disconnected_client example_config (example_request True) []
       = (Raise (HTTPException 499 ''Client disconnected''),
          [Log (Debug_processing ''claude-3-5-haiku'' True), Log (Debug_headers []),
           Log (Debug_openai_request [(''model'', JStr ''gpt-4o''), (''stream'', JBool True)])])"
proof -
  have h: "is_disconnected disconnected_client"
    by (simp add: disconnected_client_def)
  have q: "convert_claude_to_openai disconnected_client (example_request True)
      = Inr [(''model'', JStr ''gpt-4o''), (''stream'', JBool True)]"
    by (simp add: disconnected_client_def rate_limited_simps example_request_def)
  show ?thesis
    using h q disconnected_aborts [OF h, of example_config "example_request True" "[]"]
    by (simp add: example_request_def masked_headers_def)
qed

subsection \<open>The logged headers\<close>

lemma map_of_dict_set:
  "map_of (dict_set k v d) k' = (if k' = k then Some v else map_of d k')"
  by (induction d) auto

lemma keys_dict_set: "fst ` set (dict_set k v d) = insert k (fst ` set d)"
  by (induction d) auto

lemma distinct_dict_set: "distinct (map fst d) \<Longrightarrow> distinct (map fst (dict_set k v d))"
  by (induction d) (auto simp: keys_dict_set)

lemma map_of_masked_headers_from:
  "map_of (masked_headers_from d items) k =
     (case map_of (rev items) k of
        Some v \<Rightarrow> Some (mask_header k v)
      | None \<Rightarrow> map_of d k)"
proof (induction items arbitrary: d)
  case Nil
  then show ?case by simp
next
  case (Cons p items)
  obtain k' v' where p: "p = (k', v')" by (cases p)
  show ?case
    unfolding p using Cons.IH[of "dict_set k' (mask_header k' v') d"]
    by (auto simp: map_of_dict_set map_add_def split: option.splits)
qed

lemma keys_masked_headers_from:
  "fst ` set (masked_headers_from d items) = fst ` set d \<union> fst ` set items"
  by (induction d items rule: masked_headers_from.induct) (auto simp: keys_dict_set)

lemma distinct_masked_headers_from:
  "distinct (map fst d) \<Longrightarrow> distinct (map fst (masked_headers_from d items))"
  by (induction d items rule: masked_headers_from.induct) (simp_all add: distinct_dict_set)

lemma create_message_log_prefix:
  "\<exists>rest. snd (create_message c cfg request hs) =
     Log (Debug_processing (model request) (stream request)) #
     Log (Debug_headers (masked_headers hs)) # rest"
proof -
  have o: "\<exists>rest. snd (outer_except c cfg e (a # b # tr)) = a # b # rest" for e a b tr
    by (cases e) simp_all
  show ?thesis
    by (auto simp: create_message_def streaming_branch_def non_streaming_branch_def Let_def o
        split: sum.split exn.split)
qed

text \<open>
  C9. For every request the second line \<open>create_message\<close> logs is the header map
  \<open>masked_headers\<close>: it has the keys of the request's headers, each once; a key among
  \<open>Authorization\<close>, \<open>x-api-key\<close>, \<open>meta-data\<close> keeps its value (the last one sent, as a
  dict comprehension does), and every other key present is mapped to \<open>*****\<close>. The
  credential-bearing headers are thus the ones logged unmasked.
\<close>

theorem masked_headers_inverted:
  "(\<exists>rest. snd (create_message c cfg request hs) =
      Log (Debug_processing (model request) (stream request)) #
      Log (Debug_headers (masked_headers hs)) # rest)
   \<and> set (map fst (masked_headers hs)) = fst ` set hs
   \<and> distinct (map fst (masked_headers hs))
   \<and> (k \<in> {''Authorization'', ''x-api-key'', ''meta-data''} \<longrightarrow>
        dict_get (masked_headers hs) k = map_of (rev hs) k)
   \<and> (k \<notin> {''Authorization'', ''x-api-key'', ''meta-data''} \<longrightarrow> k \<in> fst ` set hs \<longrightarrow>
        dict_get (masked_headers hs) k = Some ''*****'')"
proof -
  have m: "dict_get (masked_headers hs) k = map_option (mask_header k) (map_of (rev hs) k)"
    by (simp add: dict_get_def masked_headers_def map_of_masked_headers_from split: option.split)
  have e: "\<exists>v. map_of (rev hs) k = Some v" if "k \<in> fst ` set hs"
    using that by (metis image_set map_of_eq_None_iff not_Some_eq set_rev)
  have p1: "set (map fst (masked_headers hs)) = fst ` set hs"
    by (simp add: masked_headers_def keys_masked_headers_from)
  have p2: "distinct (map fst (masked_headers hs))"
    by (simp add: masked_headers_def distinct_masked_headers_from)
  have p3: "dict_get (masked_headers hs) k = map_of (rev hs) k"
    if "k \<in> {''Authorization'', ''x-api-key'', ''meta-data''}"
  proof -
    have "mask_header k v = v" for v using that by (auto simp: mask_header_def)
    then show ?thesis unfolding m by (cases "map_of (rev hs) k") simp_all
  qed
  have p4: "dict_get (masked_headers hs) k = Some ''*****''"
    if "k \<notin> {''Authorization'', ''x-api-key'', ''meta-data''}" "k \<in> fst ` set hs"
  proof -
    have "mask_header k v = ''*****''" for v using that(1) by (auto simp: mask_header_def)
    then show ?thesis unfolding m using e[OF that(2)] by auto
  qed
  show ?thesis
    using create_message_log_prefix[of c cfg request hs] p1 p2 p3 p4 by blast
qed

theorem masked_headers_inverted_witness:
  "masked_headers example_headers =
     [(''host'', ''*****''), (''x-api-key'', ''second''), (''content-type'', ''*****'')]
   \<and> dict_get (masked_headers example_headers) ''x-api-key'' = Some ''second''
   \<and> dict_get (masked_headers example_headers) ''host'' = Some ''*****''"
proof -
  have v: "masked_headers example_headers =
     [(''host'', ''*****''), (''x-api-key'', ''second''), (''content-type'', ''*****'')]"
    by (simp add: masked_headers_def example_headers_def mask_header_def)
  have a: "dict_get (masked_headers example_headers) ''x-api-key'' = Some ''second''"
    using masked_headers_inverted [of _ _ _ example_headers "''x-api-key''"]
    by (simp add: example_headers_def)
  have b: "dict_get (masked_headers example_headers) ''host'' = Some ''*****''"
    using masked_headers_inverted [of _ _ _ example_headers "''host''"]
    by (simp add: example_headers_def)
  show ?thesis using v a b by simp
qed

subsection \<open>The text of an error reply\<close>

text \<open>
  C2 as stated fails: when the backend call of \<open>test_connection\<close> raises, the message of
  the reply is the exception's own text, unchanged.
\<close>

theorem raw_exception_text_counterexample:
  "create_chat_completion connection_refused (main_client example_config)
       (test_request example_config) None
     = Inl (Exception ''[Errno 111] Connection refused'')
   \<and> surfaced_text (fastapi_reply (fst (test_connection connection_refused example_config)))
     = Some ''[Errno 111] Connection refused''"
  by (simp add: test_connection_def connection_refused_def failing_backend_def
      surfaced_text_def)

lemma create_message_format_exc:
  "fst (create_message (c\<lparr>format_exc := f\<rparr>) cfg request hs) = fst (create_message c cfg request hs)"
proof -
  have o: "fst (outer_except (c\<lparr>format_exc := f\<rparr>) cfg e tr) = fst (outer_except c cfg e tr')"
    for e tr tr'
    by (cases e) simp_all
  show ?thesis
    by (auto simp: create_message_def streaming_branch_def non_streaming_branch_def Let_def
        intro: o split: sum.split exn.split)
qed

text \<open>
  C2, as amended. No endpoint puts a traceback in its reply, but the text of the
  exception crosses the boundary: \<open>count_tokens\<close> raises \<open>HTTPException(500)\<close> whose detail
  is \<open>str(e)\<close>, \<open>test_connection\<close> answers 503 with \<open>str(e)\<close> as its message, and
  \<open>create_message\<close> answers every exception that is not an \<open>HTTPException\<close> (from the
  request conversion, from creating the stream, from the non-streaming backend call and
  from the response conversion) with status 500 and the main client's classification of
  \<open>str(e)\<close>. What
  \<open>traceback.format_exc()\<close> returns is logged only: the outcome of \<open>create_message\<close> and of
  \<open>test_connection\<close> does not depend on it.
\<close>

theorem surfaced_error_text:
  "(\<forall>e. count_tokens_body tc_request = Inl e \<longrightarrow>
      fst (count_tokens tc_request) = Raise (HTTPException 500 (py_str e)))
   \<and> (\<forall>e. create_chat_completion c (main_client cfg) (test_request cfg) None = Inl e \<longrightarrow>
         fst (fastapi_reply (fst (test_connection c cfg))) = 503 \<and>
         surfaced_text (fastapi_reply (fst (test_connection c cfg))) = Some (py_str e))
   \<and> (\<forall>m. convert_claude_to_openai c request = Inl (Exception m) \<longrightarrow>
         fst (create_message c cfg request hs)
           = Raise (HTTPException 500 (classify_openai_error c (main_client cfg) m)))
   \<and> (\<forall>q m. convert_claude_to_openai c request = Inr q \<and> \<not> is_disconnected c \<and>
         stream request \<and>
         create_chat_completion_stream c (select_client cfg q) q (uuid4 c) = Inl (Exception m) \<longrightarrow>
         fst (create_message c cfg request hs)
           = Raise (HTTPException 500 (classify_openai_error c (main_client cfg) m)))
   \<and> (\<forall>q m. convert_claude_to_openai c request = Inr q \<and> \<not> is_disconnected c \<and>
         \<not> stream request \<and>
         create_chat_completion c (select_client cfg q) q (Some (uuid4 c)) = Inl (Exception m) \<longrightarrow>
         fst (create_message c cfg request hs)
           = Raise (HTTPException 500 (classify_openai_error c (main_client cfg) m)))
   \<and> (\<forall>q resp m. convert_claude_to_openai c request = Inr q \<and> \<not> is_disconnected c \<and>
         \<not> stream request \<and>
         create_chat_completion c (select_client cfg q) q (Some (uuid4 c)) = Inr resp \<and>
         convert_openai_to_claude_response c resp request = Inl (Exception m) \<longrightarrow>
         fst (create_message c cfg request hs)
           = Raise (HTTPException 500 (classify_openai_error c (main_client cfg) m)))
   \<and> fst (create_message (c\<lparr>format_exc := f\<rparr>) cfg request hs)
       = fst (create_message c cfg request hs)
   \<and> fst (test_connection (c\<lparr>format_exc := f\<rparr>) cfg) = fst (test_connection c cfg)"
proof -
  have a: "fst (count_tokens tc_request) = Raise (HTTPException 500 (py_str e))"
    if "count_tokens_body tc_request = Inl e" for e
    using that by (simp add: count_tokens_def)
  have b: "fst (fastapi_reply (fst (test_connection c cfg))) = 503 \<and>
       surfaced_text (fastapi_reply (fst (test_connection c cfg))) = Some (py_str e)"
    if "create_chat_completion c (main_client cfg) (test_request cfg) None = Inl e" for e
    using that by (simp add: test_connection_def surfaced_text_def)
  have d: "fst (create_message c cfg request hs)
       = Raise (HTTPException 500 (classify_openai_error c (main_client cfg) m))"
    if "convert_claude_to_openai c request = Inl (Exception m)" for m
    using create_message_convert_fails[OF that] by simp
  have d2: "fst (create_message c cfg request hs)
       = Raise (HTTPException 500 (classify_openai_error c (main_client cfg) m))"
    if "convert_claude_to_openai c request = Inr q \<and> \<not> is_disconnected c \<and> stream request \<and>
      create_chat_completion_stream c (select_client cfg q) q (uuid4 c) = Inl (Exception m)"
    for q m
    using that create_message_streaming[of c request q cfg hs] by simp
  have d3: "fst (create_message c cfg request hs)
       = Raise (HTTPException 500 (classify_openai_error c (main_client cfg) m))"
    if "convert_claude_to_openai c request = Inr q \<and> \<not> is_disconnected c \<and> \<not> stream request \<and>
      create_chat_completion c (select_client cfg q) q (Some (uuid4 c)) = Inl (Exception m)"
    for q m
    using that create_message_non_streaming[of c request q cfg hs] by simp
  have d4: "fst (create_message c cfg request hs)
       = Raise (HTTPException 500 (classify_openai_error c (main_client cfg) m))"
    if "convert_claude_to_openai c request = Inr q \<and> \<not> is_disconnected c \<and> \<not> stream request \<and>
      create_chat_completion c (select_client cfg q) q (Some (uuid4 c)) = Inr resp \<and>
      convert_openai_to_claude_response c resp request = Inl (Exception m)"
    for q resp m
    using that create_message_non_streaming[of c request q cfg hs] by simp
  have t: "fst (test_connection (c\<lparr>format_exc := f\<rparr>) cfg) = fst (test_connection c cfg)"
    by (simp add: test_connection_def split: sum.split)
  have c1: "(\<forall>e. count_tokens_body tc_request = Inl e \<longrightarrow>
      fst (count_tokens tc_request) = Raise (HTTPException 500 (py_str e)))"
    using a by blast
  have c2: "(\<forall>e. create_chat_completion c (main_client cfg) (test_request cfg) None = Inl e \<longrightarrow>
         fst (fastapi_reply (fst (test_connection c cfg))) = 503 \<and>
         surfaced_text (fastapi_reply (fst (test_connection c cfg))) = Some (py_str e))"
    using b by blast
  have c3: "(\<forall>m. convert_claude_to_openai c request = Inl (Exception m) \<longrightarrow>
         fst (create_message c cfg request hs)
           = Raise (HTTPException 500 (classify_openai_error c (main_client cfg) m)))"
    using d by blast
  have c4: "(\<forall>q m. convert_claude_to_openai c request = Inr q \<and> \<not> is_disconnected c \<and>
         stream request \<and>
         create_chat_completion_stream c (select_client cfg q) q (uuid4 c) = Inl (Exception m) \<longrightarrow>
         fst (create_message c cfg request hs)
           = Raise (HTTPException 500 (classify_openai_error c (main_client cfg) m)))"
    using d2 by blast
  have c5: "(\<forall>q m. convert_claude_to_openai c request = Inr q \<and> \<not> is_disconnected c \<and>
         \<not> stream request \<and>
         create_chat_completion c (select_client cfg q) q (Some (uuid4 c)) = Inl (Exception m) \<longrightarrow>
         fst (create_message c cfg request hs)
           = Raise (HTTPException 500 (classify_openai_error c (main_client cfg) m)))"
    using d3 by blast
  have c6: "(\<forall>q resp m. convert_claude_to_openai c request = Inr q \<and> \<not> is_disconnected c \<and>
         \<not> stream request \<and>
         create_chat_completion c (select_client cfg q) q (Some (uuid4 c)) = Inr resp \<and>
         convert_openai_to_claude_response c resp request = Inl (Exception m) \<longrightarrow>
         fst (create_message c cfg request hs)
           = Raise (HTTPException 500 (classify_openai_error c (main_client cfg) m)))"
    using d4 by blast
  have c7: "fst (create_message (c\<lparr>format_exc := f\<rparr>) cfg request hs)
       = fst (create_message c cfg request hs)"
    using create_message_format_exc by blast
  have c8: "fst (test_connection (c\<lparr>format_exc := f\<rparr>) cfg) = fst (test_connection c cfg)"
    using t by blast
  show ?thesis
    using c1 c2 c3 c4 c5 c6 c7 c8 by - (intro conjI; assumption)
qed

theorem surfaced_error_text_witness:
  "count_tokens_body untyped_system_request = Inl len_none_error
   \<and> fst (count_tokens untyped_system_request) = Raise (HTTPException 500 (message len_none_error))
   \<and> create_chat_completion rate_limited (main_client example_config)
        (test_request example_config) None = Inl (HTTPException 429 ''Rate limit exceeded'')
   \<and> surfaced_text (fastapi_reply (fst (test_connection rate_limited example_config)))
        = Some ''429: Rate limit exceeded''
   \<and> fst (create_message connection_refused example_config (example_request True) [])
        = Raise (HTTPException 500 ''[Errno 111] Connection refused'')
   \<and> fst (create_message malformed_response example_config (example_request False) [])
        = Raise (HTTPException 500 ''response has no choices'')"
proof -
  have h1: "count_tokens_body untyped_system_request = Inl len_none_error"
    by (simp add: count_tokens_body_def untyped_system_request_def)
  have h2: "create_chat_completion rate_limited (main_client example_config)
        (test_request example_config) None = Inl (HTTPException 429 ''Rate limit exceeded'')"
    by (simp add: rate_limited_simps)
  have s: "show_int 429 = ''429''" by code_simp
  have r1: "fst (count_tokens untyped_system_request) = Raise (HTTPException 500 (message len_none_error))"
    using h1 surfaced_error_text [of untyped_system_request] by (simp add: len_none_error_def)
  have r2: "surfaced_text (fastapi_reply (fst (test_connection rate_limited example_config)))
        = Some ''429: Rate limit exceeded''"
    using h2 surfaced_error_text [of _ rate_limited example_config] by (simp add: s)
  have st: "stream (example_request True)" "\<not> stream (example_request False)"
    by (simp_all add: example_request_def)
  have r3: "fst (create_message connection_refused example_config (example_request True) [])
        = Raise (HTTPException 500 ''[Errno 111] Connection refused'')"
    using st surfaced_error_text
      [of _ connection_refused example_config "example_request True" "[]"]
    by (simp add: connection_refused_simps)
  have r4: "fst (create_message malformed_response example_config (example_request False) [])
        = Raise (HTTPException 500 ''response has no choices'')"
    using st surfaced_error_text
      [of _ malformed_response example_config "example_request False" "[]"]
    by (simp add: malformed_response_simps)
  show ?thesis using h1 h2 r1 r2 r3 r4 by blast
qed

subsection \<open>Model routing\<close>

lemma longest_hint_None: "longest_hint ps = None \<longleftrightarrow> ps = []"
  by (induction ps) (auto split: option.splits)

lemma longest_hint_mem: "longest_hint ps = Some b \<Longrightarrow> b \<in> set ps"
  by (induction ps arbitrary: b) (auto split: option.splits if_splits)

lemma longest_hint_longest:
  "longest_hint ps = Some b \<Longrightarrow> p \<in> set ps \<Longrightarrow> length (fst p) \<le> length (fst b)"
proof (induction ps arbitrary: b)
  case Nil
  then show ?case by simp
next
  case (Cons a ps)
  show ?case
  proof (cases "longest_hint ps")
    case None
    then have "ps = []" by (simp add: longest_hint_None)
    then show ?thesis using Cons.prems by simp
  next
    case (Some c)
    have le: "p \<in> set ps \<Longrightarrow> length (fst p) \<le> length (fst c)"
      using Cons.IH[OF Some] .
    show ?thesis
      using Cons.prems Some le by (auto split: if_splits)
  qed
qed

lemma route_tier_unmatched:
  assumes "\<forall>h t. (h, t) \<in> set hints \<longrightarrow> \<not> contains_ci h identifier"
  shows "route_tier hints identifier = Middle"
proof -
  have "filter (\<lambda>p. contains_ci (fst p) identifier) hints = []"
    using assms by (auto simp: filter_empty_conv)
  then show ?thesis by (simp add: route_tier_def)
qed

lemma route_tier_matched:
  assumes m: "(h, t) \<in> set hints" "contains_ci h identifier"
    and u: "\<forall>h' t'. (h', t') \<in> set hints \<and> contains_ci h' identifier \<longrightarrow>
              length h' < length h \<or> t' = t"
  shows "route_tier hints identifier = t"
proof -
  let ?ms = "filter (\<lambda>p. contains_ci (fst p) identifier) hints"
  have in_ms: "(h, t) \<in> set ?ms" using m by simp
  then have "?ms \<noteq> []" by (metis empty_iff list.set(1))
  then obtain b where b: "longest_hint ?ms = Some b"
    using longest_hint_None[of ?ms] by (cases "longest_hint ?ms") simp_all
  have bm: "b \<in> set ?ms" using longest_hint_mem[OF b] .
  have "length h \<le> length (fst b)" using longest_hint_longest[OF b in_ms] by simp
  moreover have "length (fst b) < length h \<or> snd b = t"
    using u bm by (cases b) auto
  ultimately have "snd b = t" by auto
  then show ?thesis using b by (simp add: route_tier_def)
qed

lemma route_tier_some_match:
  assumes "\<exists>h t. (h, t) \<in> set hints \<and> contains_ci h identifier"
  shows "\<exists>h t. (h, t) \<in> set hints \<and> contains_ci h identifier \<and> route_tier hints identifier = t"
proof -
  let ?ms = "filter (\<lambda>p. contains_ci (fst p) identifier) hints"
  have "?ms \<noteq> []" using assms by (fastforce simp: filter_empty_conv)
  then obtain b where b: "longest_hint ?ms = Some b"
    using longest_hint_None[of ?ms] by (cases "longest_hint ?ms") simp_all
  have "b \<in> set ?ms" using longest_hint_mem[OF b] .
  then have "(fst b, snd b) \<in> set hints \<and> contains_ci (fst b) identifier" by simp
  moreover have "route_tier hints identifier = snd b" using b by (simp add: route_tier_def)
  ultimately show ?thesis by blast
qed

lemma translate_request_model:
  "translate_request cfg hints request = Inr q \<Longrightarrow>
   dict_get q ''model'' = Some (JStr (resolve_model cfg hints (model request)))"
  by (auto simp: translate_request_def dict_get_def split: if_splits)

lemma spec_converter_valid:
  "model request \<noteq> [] \<Longrightarrow> messages request \<noteq> [] \<Longrightarrow>
   spec_converter cfg hints request =
     Inr [(''model'', JStr (resolve_model cfg hints (model request))),
          (''max_tokens'', JInt (clamp_max_tokens cfg (max_tokens request)))]"
  by (simp add: spec_converter_def translate_request_def)

lemma outer_except_keeps: "set tr \<subseteq> set (snd (outer_except c cfg e tr))"
  by (cases e) auto

lemma create_message_backend_calls:
  assumes "convert_claude_to_openai c request = Inr q" "\<not> is_disconnected c"
  shows "filter is_backend_call (snd (create_message c cfg request hs))
           = [backend_call (stream request) (select_client cfg q)]"
  using assms
  by (simp add: create_message_def streaming_branch_def non_streaming_branch_def
      outer_except_snd backend_call_def Let_def split: sum.split exn.split)

lemma create_message_logs_request:
  assumes "convert_claude_to_openai c request = Inr q"
  shows "Log (Debug_openai_request q) \<in> set (snd (create_message c cfg request hs))"
proof -
  have o: "Log (Debug_openai_request q) \<in> set tr \<Longrightarrow>
      Log (Debug_openai_request q) \<in> set (snd (outer_except c cfg e tr))" for e tr
    using outer_except_keeps[of tr c cfg e] by blast
  show ?thesis
    using assms
    by (auto simp: create_message_def streaming_branch_def non_streaming_branch_def
        Let_def intro!: o split: sum.split exn.split)
qed

lemma select_client_routed:
  "select_client cfg (routed_request cfg hints request) = routed_client cfg hints request"
  by (simp add: select_client_def routed_request_def routed_client_def dict_get_def)

text \<open>
  C6. With the RequestTranslator as the handler's converter, for a request that has a
  model and a message and a client that is connected: an identifier that contains a known
  size hint, case-insensitively, is routed to the configured model of the tier of a hint
  it contains, namely of the hint \<open>h\<close> whenever every other hint it contains is shorter
  than \<open>h\<close> or of the same tier; an identifier that contains no hint is routed to the
  middle model. The converted request carries the routed model, \<open>create_message\<close> logs
  it and makes exactly one backend call, with that request, on the small-model client
  when the routed model is the configured small model (so for an identifier whose
  longest hint is of the small tier, as \<open>haiku\<close>) and on the main client otherwise.
\<close>

theorem model_routing:
  assumes "model request \<noteq> []" "messages request \<noteq> []" "\<not> is_disconnected c"
  shows "((\<exists>h t. (h, t) \<in> set hints \<and> contains_ci h (model request)) \<longrightarrow>
            (\<exists>h t. (h, t) \<in> set hints \<and> contains_ci h (model request) \<and>
               resolve_model cfg hints (model request) = tier_model cfg t))
         \<and> (\<forall>h t. (h, t) \<in> set hints \<and> contains_ci h (model request) \<and>
            (\<forall>h' t'. (h', t') \<in> set hints \<and> contains_ci h' (model request) \<longrightarrow>
               length h' < length h \<or> t' = t) \<longrightarrow>
            resolve_model cfg hints (model request) = tier_model cfg t)
         \<and> ((\<forall>h t. (h, t) \<in> set hints \<longrightarrow> \<not> contains_ci h (model request)) \<longrightarrow>
              resolve_model cfg hints (model request) = middle_model cfg)
         \<and> convert_claude_to_openai (with_spec_converter c cfg hints) request
             = Inr (routed_request cfg hints request)
         \<and> dict_get (routed_request cfg hints request) ''model''
             = Some (JStr (resolve_model cfg hints (model request)))
         \<and> Log (Debug_openai_request (routed_request cfg hints request))
             \<in> set (snd (create_message (with_spec_converter c cfg hints) cfg request hs))
         \<and> filter is_backend_call
              (snd (create_message (with_spec_converter c cfg hints) cfg request hs))
             = [backend_call (stream request) (routed_client cfg hints request)]
         \<and> (\<forall>h. (h, Small) \<in> set hints \<and> contains_ci h (model request) \<and>
               (\<forall>h' t'. (h', t') \<in> set hints \<and> contains_ci h' (model request) \<longrightarrow>
                  length h' < length h \<or> t' = Small) \<longrightarrow>
               filter is_backend_call
                 (snd (create_message (with_spec_converter c cfg hints) cfg request hs))
                = [backend_call (stream request) (small_model_client cfg)])
         \<and> (resolve_model cfg hints (model request) \<noteq> small_model cfg \<longrightarrow>
               filter is_backend_call
                 (snd (create_message (with_spec_converter c cfg hints) cfg request hs))
                = [backend_call (stream request) (main_client cfg)])
         \<and> (\<not> stream request \<longrightarrow>
               fst (create_message (with_spec_converter c cfg hints) cfg request hs) =
                 (case create_chat_completion c (routed_client cfg hints request)
                         (routed_request cfg hints request) (Some (uuid4 c)) of
                    Inl e \<Rightarrow> Raise (raised_again c cfg e)
                  | Inr resp \<Rightarrow>
                      (case convert_openai_to_claude_response c resp request of
                         Inl e \<Rightarrow> Raise (raised_again c cfg e)
                       | Inr j \<Rightarrow> Return (Plain j))))
         \<and> (stream request \<longrightarrow>
               fst (create_message (with_spec_converter c cfg hints) cfg request hs) =
                 (case create_chat_completion_stream c (routed_client cfg hints request)
                         (routed_request cfg hints request) (uuid4 c) of
                    Inr u \<Rightarrow> Return (StreamingResponse u request (routed_client cfg hints request)
                                      (uuid4 c) ''text/event-stream'' stream_headers)
                  | Inl (HTTPException s d) \<Rightarrow>
                      Return (JSONResponse s (error_envelope ''api_error''
                        (classify_openai_error c (routed_client cfg hints request) d)))
                  | Inl (Exception m) \<Rightarrow> Raise (raised_again c cfg (Exception m))))"
proof -
  let ?W = "with_spec_converter c cfg hints"
  let ?q = "routed_request cfg hints request"
  have ra: "raised_again ?W cfg e = raised_again c cfg e" for e
    by (cases e) (simp_all add: with_spec_converter_def)
  have w: "create_chat_completion ?W = create_chat_completion c"
    "create_chat_completion_stream ?W = create_chat_completion_stream c"
    "convert_openai_to_claude_response ?W = convert_openai_to_claude_response c"
    "classify_openai_error ?W = classify_openai_error c"
    "uuid4 ?W = uuid4 c"
    by (simp_all add: with_spec_converter_def)
  have cv: "convert_claude_to_openai ?W request = Inr ?q"
    using assms(1,2)
    by (simp add: with_spec_converter_def spec_converter_valid routed_request_def)
  have nd: "\<not> is_disconnected ?W"
    using assms(3) by (simp add: with_spec_converter_def)
  have c1: "(\<exists>h t. (h, t) \<in> set hints \<and> contains_ci h (model request)) \<longrightarrow>
            (\<exists>h t. (h, t) \<in> set hints \<and> contains_ci h (model request) \<and>
               resolve_model cfg hints (model request) = tier_model cfg t)"
    using route_tier_some_match[of hints "model request"] by (auto simp: resolve_model_def)
  have m: "resolve_model cfg hints (model request) = tier_model cfg t"
    if "(h, t) \<in> set hints \<and> contains_ci h (model request) \<and>
        (\<forall>h' t'. (h', t') \<in> set hints \<and> contains_ci h' (model request) \<longrightarrow>
           length h' < length h \<or> t' = t)" for h t
    using that route_tier_matched[of h t hints "model request"] by (simp add: resolve_model_def)
  have c2: "\<forall>h t. (h, t) \<in> set hints \<and> contains_ci h (model request) \<and>
            (\<forall>h' t'. (h', t') \<in> set hints \<and> contains_ci h' (model request) \<longrightarrow>
               length h' < length h \<or> t' = t) \<longrightarrow>
            resolve_model cfg hints (model request) = tier_model cfg t"
    using m by blast
  have c3: "(\<forall>h t. (h, t) \<in> set hints \<longrightarrow> \<not> contains_ci h (model request)) \<longrightarrow>
              resolve_model cfg hints (model request) = middle_model cfg"
    using route_tier_unmatched[of hints "model request"] by (simp add: resolve_model_def)
  have c5: "dict_get ?q ''model'' = Some (JStr (resolve_model cfg hints (model request)))"
    by (simp add: routed_request_def dict_get_def)
  have c6: "Log (Debug_openai_request ?q) \<in> set (snd (create_message ?W cfg request hs))"
    using create_message_logs_request[OF cv] .
  have c7: "filter is_backend_call (snd (create_message ?W cfg request hs))
      = [backend_call (stream request) (routed_client cfg hints request)]"
    using create_message_backend_calls[OF cv nd, of cfg hs] by (simp add: select_client_routed)
  have c8: "\<forall>h. (h, Small) \<in> set hints \<and> contains_ci h (model request) \<and>
               (\<forall>h' t'. (h', t') \<in> set hints \<and> contains_ci h' (model request) \<longrightarrow>
                  length h' < length h \<or> t' = Small) \<longrightarrow>
               filter is_backend_call (snd (create_message ?W cfg request hs))
                = [backend_call (stream request) (small_model_client cfg)]"
  proof (intro allI impI)
    fix h
    assume "(h, Small) \<in> set hints \<and> contains_ci h (model request) \<and>
               (\<forall>h' t'. (h', t') \<in> set hints \<and> contains_ci h' (model request) \<longrightarrow>
                  length h' < length h \<or> t' = Small)"
    then have "resolve_model cfg hints (model request) = small_model cfg"
      using m[of h Small] by simp
    then show "filter is_backend_call (snd (create_message ?W cfg request hs))
                = [backend_call (stream request) (small_model_client cfg)]"
      using c7 by (simp add: routed_client_def)
  qed
  have c9: "resolve_model cfg hints (model request) \<noteq> small_model cfg \<longrightarrow>
               filter is_backend_call (snd (create_message ?W cfg request hs))
                = [backend_call (stream request) (main_client cfg)]"
    using c7 by (simp add: routed_client_def)
  have c10: "\<not> stream request \<longrightarrow>
               fst (create_message ?W cfg request hs) =
                 (case create_chat_completion c (routed_client cfg hints request) ?q
                         (Some (uuid4 c)) of
                    Inl e \<Rightarrow> Raise (raised_again c cfg e)
                  | Inr resp \<Rightarrow>
                      (case convert_openai_to_claude_response c resp request of
                         Inl e \<Rightarrow> Raise (raised_again c cfg e)
                       | Inr j \<Rightarrow> Return (Plain j)))"
  proof
    assume ns: "\<not> stream request"
    show "fst (create_message ?W cfg request hs) =
                 (case create_chat_completion c (routed_client cfg hints request) ?q
                         (Some (uuid4 c)) of
                    Inl e \<Rightarrow> Raise (raised_again c cfg e)
                  | Inr resp \<Rightarrow>
                      (case convert_openai_to_claude_response c resp request of
                         Inl e \<Rightarrow> Raise (raised_again c cfg e)
                       | Inr j \<Rightarrow> Return (Plain j)))"
      unfolding create_message_non_streaming[OF cv nd ns, of cfg hs] ra select_client_routed w
      by (rule refl)
  qed
  have c11: "stream request \<longrightarrow>
               fst (create_message ?W cfg request hs) =
                 (case create_chat_completion_stream c (routed_client cfg hints request) ?q
                         (uuid4 c) of
                    Inr u \<Rightarrow> Return (StreamingResponse u request (routed_client cfg hints request)
                                      (uuid4 c) ''text/event-stream'' stream_headers)
                  | Inl (HTTPException s d) \<Rightarrow>
                      Return (JSONResponse s (error_envelope ''api_error''
                        (classify_openai_error c (routed_client cfg hints request) d)))
                  | Inl (Exception m) \<Rightarrow> Raise (raised_again c cfg (Exception m)))"
  proof
    assume st: "stream request"
    show "fst (create_message ?W cfg request hs) =
                 (case create_chat_completion_stream c (routed_client cfg hints request) ?q
                         (uuid4 c) of
                    Inr u \<Rightarrow> Return (StreamingResponse u request (routed_client cfg hints request)
                                      (uuid4 c) ''text/event-stream'' stream_headers)
                  | Inl (HTTPException s d) \<Rightarrow>
                      Return (JSONResponse s (error_envelope ''api_error''
                        (classify_openai_error c (routed_client cfg hints request) d)))
                  | Inl (Exception m) \<Rightarrow> Raise (raised_again c cfg (Exception m)))"
      unfolding create_message_streaming[OF cv nd st, of cfg hs] ra select_client_routed w
      by (rule refl)
  qed
  show ?thesis
    using c1 c2 c3 cv c5 c6 c7 c8 c9 c10 c11 by - (intro conjI; assumption)
qed

theorem model_routing_witness:
  "fst (create_message (with_spec_converter answering_backend split_config size_hints)
         split_config (example_request False) [])
     = Return (Plain (JDict [(''model'', JStr ''gpt-4o-mini''),
                             (''served_by'', JStr ''https://small.example/v1'')]))
   \<and> filter is_backend_call
        (snd (create_message (with_spec_converter answering_backend split_config size_hints)
               split_config (example_request False) []))
     = [Backend_completion_call (small_model_client split_config)]
   \<and> small_model_client split_config \<noteq> main_client split_config
   \<and> filter is_backend_call
        (snd (create_message (with_spec_converter answering_backend split_config size_hints)
               split_config unhinted_request []))
     = [Backend_completion_call (main_client split_config)]"
proof -
  let ?W = "with_spec_converter answering_backend split_config size_hints"
  have v: "model (example_request False) \<noteq> []" "messages (example_request False) \<noteq> []"
    "model unhinted_request \<noteq> []" "messages unhinted_request \<noteq> []"
    by (simp_all add: example_request_def unhinted_request_def)
  have nd: "\<not> is_disconnected answering_backend"
    by (simp add: answering_backend_def rate_limited_simps)
  have ns: "\<not> stream (example_request False)" "\<not> stream unhinted_request"
    by (simp_all add: example_request_def unhinted_request_def)
  have m: "model (example_request False) = ''claude-3-5-haiku''" "model unhinted_request = ''gpt-4''"
    by (simp_all add: example_request_def unhinted_request_def)
  have c1: "contains_ci ''haiku'' ''claude-3-5-haiku''" by code_simp
  have c2: "\<not> contains_ci ''sonnet'' ''claude-3-5-haiku''" by code_simp
  have c3: "\<not> contains_ci ''opus'' ''claude-3-5-haiku''" by code_simp
  have g: "\<not> contains_ci ''haiku'' ''gpt-4''" "\<not> contains_ci ''sonnet'' ''gpt-4''"
    "\<not> contains_ci ''opus'' ''gpt-4''" by code_simp+
  have sm: "small_model split_config = ''gpt-4o-mini''" "middle_model split_config = ''gpt-4o''"
    by (simp_all add: split_config_def example_config_def)
  have h: "(''haiku'', Small) \<in> set size_hints \<and> contains_ci ''haiku'' (model (example_request False)) \<and>
      (\<forall>h' t'. (h', t') \<in> set size_hints \<and> contains_ci h' (model (example_request False)) \<longrightarrow>
         length h' < length ''haiku'' \<or> t' = Small)"
    using c1 c2 c3 by (auto simp: size_hints_def m)
  note mr = model_routing [OF v(1,2) nd, of size_hints split_config "[]"]
  note mu = model_routing [OF v(3,4) nd, of size_hints split_config "[]"]
  have "resolve_model split_config size_hints (model (example_request False))
      = tier_model split_config Small"
    using h mr[THEN conjunct2, THEN conjunct1, rule_format, of "''haiku''" Small] by blast
  then have r: "resolve_model split_config size_hints (model (example_request False))
      = ''gpt-4o-mini''"
    by (simp add: sm)
  have "filter is_backend_call (snd (create_message ?W split_config (example_request False) []))
     = [backend_call (stream (example_request False)) (small_model_client split_config)]"
    using h mr[THEN conjunct2, THEN conjunct2, THEN conjunct2, THEN conjunct2, THEN conjunct2,
      THEN conjunct2, THEN conjunct2, THEN conjunct1, rule_format, of "''haiku''"] by blast
  then have a: "filter is_backend_call
      (snd (create_message ?W split_config (example_request False) []))
     = [Backend_completion_call (small_model_client split_config)]"
    using ns by (simp add: backend_call_def)
  have u: "\<forall>h t. (h, t) \<in> set size_hints \<longrightarrow> \<not> contains_ci h (model unhinted_request)"
    using g by (auto simp: size_hints_def m)
  have "resolve_model split_config size_hints (model unhinted_request) = middle_model split_config"
    using u mu[THEN conjunct2, THEN conjunct2, THEN conjunct1] by blast
  then have ur: "resolve_model split_config size_hints (model unhinted_request)
      \<noteq> small_model split_config"
    by (simp add: sm)
  have "filter is_backend_call (snd (create_message ?W split_config unhinted_request []))
     = [backend_call (stream unhinted_request) (main_client split_config)]"
    using ur mu[THEN conjunct2, THEN conjunct2, THEN conjunct2, THEN conjunct2, THEN conjunct2,
      THEN conjunct2, THEN conjunct2, THEN conjunct2, THEN conjunct1] by blast
  then have b: "filter is_backend_call (snd (create_message ?W split_config unhinted_request []))
     = [Backend_completion_call (main_client split_config)]"
    using ns by (simp add: backend_call_def)
  have d: "small_model_client split_config \<noteq> main_client split_config"
    by (simp add: small_model_client_def main_client_def split_config_def example_config_def)
  have rc: "routed_client split_config size_hints (example_request False)
      = small_model_client split_config"
    using r sm by (simp add: routed_client_def)
  have bu: "base_url (small_model_client split_config) = ''https://small.example/v1''"
    by (simp add: small_model_client_def split_config_def example_config_def)
  have rq: "routed_request split_config size_hints (example_request False)
      = [(''model'', JStr ''gpt-4o-mini''),
         (''max_tokens'', JInt (clamp_max_tokens split_config (max_tokens (example_request False))))]"
    by (simp add: routed_request_def r)
  have cc: "create_chat_completion answering_backend cl q i
      = Inr [(''model'', (case dict_get q ''model'' of None \<Rightarrow> JNull | Some v \<Rightarrow> v)),
             (''served_by'', JStr (base_url cl))]" for cl q i
    by (simp add: answering_backend_def)
  have cr: "convert_openai_to_claude_response answering_backend resp rr = Inr (JDict resp)" for resp rr
    by (simp add: answering_backend_def rate_limited_def failing_backend_def)
  have "fst (create_message ?W split_config (example_request False) []) =
      (case create_chat_completion answering_backend
              (routed_client split_config size_hints (example_request False))
              (routed_request split_config size_hints (example_request False))
              (Some (uuid4 answering_backend)) of
         Inl e \<Rightarrow> Raise (raised_again answering_backend split_config e)
       | Inr resp \<Rightarrow>
           (case convert_openai_to_claude_response answering_backend resp (example_request False) of
              Inl e \<Rightarrow> Raise (raised_again answering_backend split_config e)
            | Inr j \<Rightarrow> Return (Plain j)))"
    using ns mr[THEN conjunct2, THEN conjunct2, THEN conjunct2, THEN conjunct2, THEN conjunct2,
      THEN conjunct2, THEN conjunct2, THEN conjunct2, THEN conjunct2, THEN conjunct1] by blast
  then have e: "fst (create_message ?W split_config (example_request False) [])
     = Return (Plain (JDict [(''model'', JStr ''gpt-4o-mini''),
                             (''served_by'', JStr ''https://small.example/v1'')]))"
    by (simp add: cc cr rc bu rq dict_get_def)
  show ?thesis using e a d b by blast
qed

subsection \<open>Clamping of the token limit\<close>

text \<open>
  C7. With the configured floor not above the configured ceiling, the translated
  max-token value lies between them: a requested value above the ceiling becomes the
  ceiling, one below the floor becomes the floor, one within the bounds is kept, and the
  translation of a request with a model and a message succeeds for every requested
  value.
\<close>

theorem clamp_max_tokens_bounds:
  assumes "min_tokens_limit cfg \<le> max_tokens_limit cfg"
  shows "min_tokens_limit cfg \<le> clamp_max_tokens cfg requested
         \<and> clamp_max_tokens cfg requested \<le> max_tokens_limit cfg
         \<and> (requested > max_tokens_limit cfg \<longrightarrow>
              clamp_max_tokens cfg requested = max_tokens_limit cfg)
         \<and> (requested < min_tokens_limit cfg \<longrightarrow>
              clamp_max_tokens cfg requested = min_tokens_limit cfg)
         \<and> (min_tokens_limit cfg \<le> requested \<and> requested \<le> max_tokens_limit cfg \<longrightarrow>
              clamp_max_tokens cfg requested = requested)
         \<and> (model request \<noteq> [] \<and> messages request \<noteq> [] \<longrightarrow>
              (\<exists>q. translate_request cfg hints (request\<lparr>max_tokens := requested\<rparr>) = Inr q \<and>
                 dict_get q ''max_tokens'' = Some (JInt (clamp_max_tokens cfg requested))))"
  using assms by (auto simp: clamp_max_tokens_def translate_request_def dict_get_def)

theorem clamp_max_tokens_bounds_witness:
  "min_tokens_limit example_config \<le> max_tokens_limit example_config
   \<and> clamp_max_tokens example_config 100000 = 4096
   \<and> clamp_max_tokens example_config 5 = 100
   \<and> clamp_max_tokens example_config 1024 = 1024"
proof -
  have h: "min_tokens_limit example_config \<le> max_tokens_limit example_config"
    by (simp add: example_config_def)
  have l: "max_tokens_limit example_config = 4096" "min_tokens_limit example_config = 100"
    by (simp_all add: example_config_def)
  have a: "clamp_max_tokens example_config 100000 = 4096"
    using clamp_max_tokens_bounds [OF h, of 100000] by (simp add: l)
  have b: "clamp_max_tokens example_config 5 = 100"
    using clamp_max_tokens_bounds [OF h, of 5] by (simp add: l)
  have c: "clamp_max_tokens example_config 1024 = 1024"
    using clamp_max_tokens_bounds [OF h, of 1024] by (simp add: l)
  show ?thesis using h a b c by simp
qed

subsection \<open>Block accounting of the stream translator\<close>

lemma opened_indices_append: "opened_indices (a @ b) = opened_indices a @ opened_indices b"
  by (induction a rule: opened_indices.induct) simp_all

lemma closed_indices_append: "closed_indices (a @ b) = closed_indices a @ closed_indices b"
  by (induction a rule: closed_indices.induct) simp_all

lemma close_open_indices:
  "opened_indices (close_open s) = []" "closed_indices (close_open s) = pending s"
  by (auto simp: close_open_def pending_def split: option.splits block_type.splits)

lemma tracks_neutral:
  "linked s \<Longrightarrow> opened_indices e = [] \<Longrightarrow> closed_indices e = [] \<Longrightarrow> tracks s (s, e)"
  by (simp add: tracks_def)

lemma tracks_opened:
  "tracks s r \<Longrightarrow> opened_indices (snd r) = [next_index s ..< next_index (fst r)]"
  unfolding tracks_def by blast

lemma tracks_closed:
  "tracks s r \<Longrightarrow> pending s @ opened_indices (snd r) = closed_indices (snd r) @ pending (fst r)"
  unfolding tracks_def by blast

lemma tracks_same:
  "next_index a = next_index b \<Longrightarrow> open_block a = open_block b \<Longrightarrow> tracks a r = tracks b r"
  unfolding tracks_def pending_def by simp

lemma tracks_trans:
  assumes "tracks s (s1, e1)" "tracks s1 (s2, e2)"
  shows "tracks s (s2, e1 @ e2)"
proof -
  have i: "[next_index s ..< next_index s1] @ [next_index s1 ..< next_index s2]
      = [next_index s ..< next_index s2]"
    using assms by (metis fst_conv le_Suc_ex tracks_def upt_add_eq_append)
  have "pending s @ opened_indices e1 @ opened_indices e2
      = closed_indices e1 @ closed_indices e2 @ pending s2"
    using assms by (metis (no_types, lifting) append.assoc fst_conv snd_conv tracks_def)
  then show ?thesis
    using assms i by (simp add: tracks_def opened_indices_append closed_indices_append)
qed

lemma tracks_open_new: "tracks s (open_new ty cid b s)"
  by (simp add: tracks_def open_new_def linked_def pending_def
      opened_indices_append closed_indices_append close_open_indices)

lemma tracks_end_stream:
  assumes "opened_indices terminal = []" "closed_indices terminal = []"
  shows "tracks s (end_stream p terminal s)"
  using assms
  by (simp add: tracks_def end_stream_def linked_def pending_def
      opened_indices_append closed_indices_append close_open_indices)

lemma tracks_on_text: "linked s \<Longrightarrow> tracks s (on_text t s)"
proof -
  assume l: "linked s"
  obtain s' evs where o: "open_new Text_block [] [] s = (s', evs)"
    by (cases "open_new Text_block [] [] s")
  have t: "tracks s (s', evs)" using tracks_open_new[of s Text_block "[]" "[]"] o by simp
  then have "linked s'" by (simp add: tracks_def)
  then have "tracks s' (s', [Content_block_delta (next_index s) t])"
    by (simp add: tracks_neutral)
  then have n: "tracks s (s', evs @ [Content_block_delta (next_index s) t])"
    using tracks_trans[OF t] by blast
  have d: "tracks s (s, [Content_block_delta i t])" for i
    using l by (simp add: tracks_neutral)
  show ?thesis
    using n d o by (simp add: on_text_def split: option.split block_type.split)
qed

lemma tracks_on_tool: "linked s \<Longrightarrow> tracks s (on_tool f s)"
  using tracks_open_new[of s Tool_use_block "call_id f" "arguments_fragment f"]
  by (auto simp: on_tool_def tracks_def linked_def pending_def
      split: option.splits block_type.splits)

lemma phase_on_text: "phase (fst (on_text t s)) = phase s"
  by (auto simp: on_text_def open_new_def split: option.splits block_type.splits)

lemma phase_on_tool: "phase (fst (on_tool f s)) = phase s"
  by (auto simp: on_tool_def open_new_def split: option.splits block_type.splits)

lemma on_payload_unfold:
  obtains s1 e1 s2 e2 s3 e3 where
    "(s1, e1) = (case text_fragment c of None \<Rightarrow> (s, []) | Some t \<Rightarrow> on_text t s)"
    "(s2, e2) = (case tool_fragment c of None \<Rightarrow> (s1, []) | Some f \<Rightarrow> on_tool f s1)"
    "(s3, e3) =
       (case error_payload c of
          Some e \<Rightarrow> end_stream Failed [Error_event e] s2
        | None \<Rightarrow>
            (case finish_reason c of
               Some r \<Rightarrow> end_stream Done [Message_delta r, Message_close] s2
             | None \<Rightarrow> (s2, [])))"
    "on_payload c s = (s3, e1 @ e2 @ e3)"
    "phase s2 = phase s"
proof -
  obtain s1 e1 where 1:
    "(s1, e1) = (case text_fragment c of None \<Rightarrow> (s, []) | Some t \<Rightarrow> on_text t s)"
    by (metis surj_pair)
  obtain s2 e2 where 2:
    "(s2, e2) = (case tool_fragment c of None \<Rightarrow> (s1, []) | Some f \<Rightarrow> on_tool f s1)"
    by (metis surj_pair)
  obtain s3 e3 where 3: "(s3, e3) =
       (case error_payload c of
          Some e \<Rightarrow> end_stream Failed [Error_event e] s2
        | None \<Rightarrow>
            (case finish_reason c of
               Some r \<Rightarrow> end_stream Done [Message_delta r, Message_close] s2
             | None \<Rightarrow> (s2, [])))"
    by (metis surj_pair)
  have p1: "phase s1 = phase s"
    using 1 phase_on_text[of _ s] by (cases "text_fragment c") (auto dest: arg_cong[where f=fst])
  have p2: "phase s2 = phase s1"
    using 2 phase_on_tool[of _ s1] by (cases "tool_fragment c") (auto dest: arg_cong[where f=fst])
  have "on_payload c s = (s3, e1 @ e2 @ e3)"
    using 1[symmetric] 2[symmetric] 3[symmetric] by (simp add: on_payload_def)
  then show ?thesis using that 1 2 3 p1 p2 by simp
qed

lemma tracks_on_payload:
  assumes "linked s"
  shows "tracks s (on_payload c s)"
proof -
  obtain s1 e1 s2 e2 s3 e3 where
    1: "(s1, e1) = (case text_fragment c of None \<Rightarrow> (s, []) | Some t \<Rightarrow> on_text t s)" and
    2: "(s2, e2) = (case tool_fragment c of None \<Rightarrow> (s1, []) | Some f \<Rightarrow> on_tool f s1)" and
    3: "(s3, e3) =
       (case error_payload c of
          Some e \<Rightarrow> end_stream Failed [Error_event e] s2
        | None \<Rightarrow>
            (case finish_reason c of
               Some r \<Rightarrow> end_stream Done [Message_delta r, Message_close] s2
             | None \<Rightarrow> (s2, [])))" and
    r: "on_payload c s = (s3, e1 @ e2 @ e3)"
    by (rule on_payload_unfold)
  have t1: "tracks s (s1, e1)"
    unfolding 1 using assms by (simp add: tracks_neutral tracks_on_text split: option.split)
  then have l1: "linked s1" by (simp add: tracks_def)
  have t2: "tracks s1 (s2, e2)"
    unfolding 2 using l1 by (simp add: tracks_neutral tracks_on_tool split: option.split)
  then have l2: "linked s2" by (simp add: tracks_def)
  have t3: "tracks s2 (s3, e3)"
    unfolding 3 using l2 by (simp add: tracks_neutral tracks_end_stream split: option.split)
  show ?thesis
    unfolding r using tracks_trans[OF t1 tracks_trans[OF t2 t3]] .
qed

lemma finished_on_payload:
  assumes "\<not> finished (phase s)" "finished (phase (fst (on_payload c s)))"
  shows "open_block (fst (on_payload c s)) = None"
proof -
  obtain s1 e1 s2 e2 s3 e3 where
    3: "(s3, e3) =
       (case error_payload c of
          Some e \<Rightarrow> end_stream Failed [Error_event e] s2
        | None \<Rightarrow>
            (case finish_reason c of
               Some r \<Rightarrow> end_stream Done [Message_delta r, Message_close] s2
             | None \<Rightarrow> (s2, [])))" and
    r: "on_payload c s = (s3, e1 @ e2 @ e3)" and
    p: "phase s2 = phase s"
    by (rule on_payload_unfold)
  show ?thesis
    using assms 3 p unfolding r
    by (auto simp: end_stream_def split: option.splits)
qed

lemma ends_on_payload:
  assumes "finish_reason c \<noteq> None \<or> error_payload c \<noteq> None"
  shows "finished (phase (fst (on_payload c s)))"
proof -
  obtain s1 e1 s2 e2 s3 e3 where
    3: "(s3, e3) =
       (case error_payload c of
          Some e \<Rightarrow> end_stream Failed [Error_event e] s2
        | None \<Rightarrow>
            (case finish_reason c of
               Some r \<Rightarrow> end_stream Done [Message_delta r, Message_close] s2
             | None \<Rightarrow> (s2, [])))" and
    r: "on_payload c s = (s3, e1 @ e2 @ e3)"
    by (rule on_payload_unfold)
  show ?thesis
    using assms 3 unfolding r by (auto simp: end_stream_def split: option.splits)
qed

lemma well_formed_end_stream: "well_formed (fst (end_stream p terminal s))"
  by (simp add: well_formed_def end_stream_def)

lemma well_formed_linked: "well_formed s \<Longrightarrow> linked s"
  by (simp add: well_formed_def linked_def)

lemma step_tracks:
  assumes "well_formed s"
  shows "tracks s (step s u) \<and> well_formed (fst (step s u))"
proof (cases "finished (phase s)")
  case True
  then show ?thesis using assms by (simp add: step_def tracks_neutral well_formed_linked)
next
  case nf: False
  have l: "linked s" using assms by (rule well_formed_linked)
  have wf: "well_formed (fst r)" if "tracks s r" "finished (phase (fst r)) \<longrightarrow> open_block (fst r) = None"
    for r using that by (simp add: tracks_def well_formed_def linked_def)
  show ?thesis
  proof (cases u)
    case (Chunk c)
    show ?thesis
    proof (cases "phase s = Idle")
      case False
      then have s: "step s u = on_payload c s" using nf Chunk by (simp add: step_def)
      show ?thesis unfolding s
        using tracks_on_payload[OF l] wf finished_on_payload[OF nf] by blast
    next
      case True
      show ?thesis
      proof (cases "chunk_role c")
        case None
        then show ?thesis using True Chunk nf assms l by (simp add: step_def tracks_neutral)
      next
        case (Some r)
        let ?s = "s\<lparr>phase := MessageOpen\<rparr>"
        obtain s' evs where o: "on_payload c ?s = (s', evs)" by (cases "on_payload c ?s")
        have st: "step s u = (s', Message_open r # evs)"
          using True Chunk nf Some o by (simp add: step_def)
        have "linked ?s" using l by (auto simp: linked_def split: option.splits)
        then have "tracks ?s (s', evs)" using tracks_on_payload[of ?s c] o by simp
        then have "tracks s (s', evs)" using tracks_same[of ?s s] by simp
        then have t: "tracks s (s', Message_open r # evs)"
          using tracks_trans[OF tracks_neutral[OF l, of "[Message_open r]"]] by fastforce
        have "finished (phase s') \<longrightarrow> open_block s' = None"
          using finished_on_payload[of ?s c] o by simp
        then have "well_formed s'" using wf[of "(s', Message_open r # evs)"] t by simp
        then show ?thesis unfolding st using t by simp
      qed
    qed
  next
    case Idle_interval
    then show ?thesis using nf assms l by (simp add: step_def tracks_neutral)
  next
    case Disconnection
    then have s: "step s u = end_stream Cancelled [Cancelled_event] s" using nf by (simp add: step_def)
    show ?thesis unfolding s
      using tracks_end_stream[of "[Cancelled_event]" s Cancelled]
        well_formed_end_stream[of Cancelled "[Cancelled_event]" s]
      by simp
  next
    case Upstream_raises
    then have s: "step s u = end_stream Failed [Error_event ''UpstreamStreamError''] s"
      using nf by (simp add: step_def)
    show ?thesis unfolding s
      using tracks_end_stream[of "[Error_event ''UpstreamStreamError'']" s Failed]
        well_formed_end_stream[of Failed "[Error_event ''UpstreamStreamError'']" s]
      by simp
  qed
qed

lemma run_tracks:
  "well_formed s \<Longrightarrow> tracks s (run s us) \<and> well_formed (fst (run s us))"
proof (induction us arbitrary: s)
  case Nil
  then show ?case by (simp add: tracks_neutral well_formed_linked)
next
  case (Cons u us)
  obtain s1 e1 where 1: "step s u = (s1, e1)" by (cases "step s u")
  obtain s2 e2 where 2: "run s1 us = (s2, e2)" by (cases "run s1 us")
  have a: "tracks s (s1, e1)" "well_formed s1"
    using step_tracks[OF Cons.prems, of u] 1 by simp_all
  have b: "tracks s1 (s2, e2)" "well_formed s2"
    using Cons.IH[OF a(2)] 2 by simp_all
  show ?case using tracks_trans[OF a(1) b(1)] b(2) 1 2 by simp
qed

lemma run_append:
  "run s (us @ vs) =
     (case run s us of (s1, e1) \<Rightarrow> (case run s1 vs of (s2, e2) \<Rightarrow> (s2, e1 @ e2)))"
  by (induction us arbitrary: s) (auto split: prod.splits)

lemma run_last: "fst (run s (us @ [u])) = fst (step (fst (run s us)) u)"
  by (simp add: run_append split: prod.splits)

lemma finished_after_end:
  "finished (phase (fst (step s Disconnection)))"
  "finished (phase (fst (step s Upstream_raises)))"
  by (simp_all add: step_def end_stream_def)

lemma well_formed_initial: "well_formed initial_state"
  by (simp add: well_formed_def initial_state_def)

text \<open>
  C8. In every event sequence the stream translator produces, the indices of the
  block-open events are 0, 1, 2, ... in this order: strictly increasing from zero, with
  no gap and none reused. Once the stream has ended (by a finish reason, an error payload,
  the upstream raising or the client disconnecting) the block-close events are as many as
  the block-open events and close the same indices in the same order. A disconnection or
  an upstream failure ends every stream, and a chunk with a finish reason or an error
  payload ends an open message.
\<close>

theorem block_accounting:
  "opened_indices (snd (run initial_state us))
     = [0 ..< length (opened_indices (snd (run initial_state us)))]
   \<and> (finished (phase (fst (run initial_state us))) \<longrightarrow>
        length (opened_indices (snd (run initial_state us)))
          = length (closed_indices (snd (run initial_state us))) \<and>
        closed_indices (snd (run initial_state us)) = opened_indices (snd (run initial_state us)))
   \<and> finished (phase (fst (run initial_state (us @ [Disconnection]))))
   \<and> finished (phase (fst (run initial_state (us @ [Upstream_raises]))))
   \<and> (\<forall>c. phase (fst (run initial_state us)) = MessageOpen \<and>
            (finish_reason c \<noteq> None \<or> error_payload c \<noteq> None) \<longrightarrow>
            finished (phase (fst (run initial_state (us @ [Chunk c])))))"
proof -
  let ?s = "fst (run initial_state us)" and ?evs = "snd (run initial_state us)"
  have t: "tracks initial_state (?s, ?evs)" and w: "well_formed ?s"
    using run_tracks[OF well_formed_initial, of us] by simp_all
  have i: "next_index initial_state = 0" "pending initial_state = []"
    by (simp_all add: initial_state_def pending_def)
  have o: "opened_indices ?evs = [0 ..< next_index ?s]"
    using tracks_opened[OF t] i by simp
  have p: "opened_indices ?evs = closed_indices ?evs @ pending ?s"
    using tracks_closed[OF t] i by simp
  have a: "opened_indices ?evs = [0 ..< length (opened_indices ?evs)]"
    using o by simp
  have b: "length (opened_indices ?evs) = length (closed_indices ?evs) \<and>
      closed_indices ?evs = opened_indices ?evs" if "finished (phase ?s)"
  proof -
    have "pending ?s = []" using w that by (simp add: well_formed_def pending_def)
    then show ?thesis using p by simp
  qed
  have c: "finished (phase (fst (run initial_state (us @ [Chunk c]))))"
    if "phase ?s = MessageOpen \<and> (finish_reason c \<noteq> None \<or> error_payload c \<noteq> None)" for c
    using that ends_on_payload[of c ?s] by (simp add: run_last step_def)
  have d: "finished (phase (fst (run initial_state (us @ [Disconnection]))))"
    "finished (phase (fst (run initial_state (us @ [Upstream_raises]))))"
    using finished_after_end[of ?s] by (simp_all add: run_last)
  show ?thesis
    using a b c d by blast
qed

theorem block_accounting_witness:
  "run initial_state text_scenario
     = (\<lparr>phase = Done, next_index = 1, open_block = None, buffer = []\<rparr>,
        [Message_open ''assistant'', Content_block_open 0 Text_block,
         Content_block_delta 0 ''Hel'', Content_block_delta 0 ''lo'',
         Content_block_delta 0 ''!'', Content_block_close 0,
         Message_delta ''stop'', Message_close])
   \<and> closed_indices (snd (run initial_state text_scenario))
     = opened_indices (snd (run initial_state text_scenario))
   \<and> phase (fst (run initial_state tool_scenario)) = MessageOpen
   \<and> finished (phase (fst (run initial_state
        (tool_scenario @ [Chunk (finish_chunk ''tool_calls'')]))))
   \<and> snd (run initial_state (tool_scenario @ [Disconnection]))
     = [Message_open ''assistant'', Content_block_open 0 Text_block,
        Content_block_delta 0 ''Hel'', Content_block_close 0,
        Content_block_open 1 Tool_use_block, Content_block_delta 1 ''{}'',
        Content_block_close 1, Cancelled_event]"
proof -
  have r: "run initial_state text_scenario
     = (\<lparr>phase = Done, next_index = 1, open_block = None, buffer = []\<rparr>,
        [Message_open ''assistant'', Content_block_open 0 Text_block,
         Content_block_delta 0 ''Hel'', Content_block_delta 0 ''lo'',
         Content_block_delta 0 ''!'', Content_block_close 0,
         Message_delta ''stop'', Message_close])"
    by (simp add: text_scenario_def initial_state_def step_def on_payload_def on_text_def
        open_new_def end_stream_def close_open_def text_chunk_def finish_chunk_def)
  have f: "finished (phase (fst (run initial_state text_scenario)))"
    unfolding r by simp
  have e: "closed_indices (snd (run initial_state text_scenario))
      = opened_indices (snd (run initial_state text_scenario))"
    using f block_accounting [of text_scenario] by blast
  have m: "phase (fst (run initial_state tool_scenario)) = MessageOpen"
    by (simp add: tool_scenario_def initial_state_def step_def on_payload_def on_text_def
        on_tool_def open_new_def close_open_def text_chunk_def tool_chunk_def)
  have g: "finish_reason (finish_chunk ''tool_calls'') \<noteq> None"
    by (simp add: finish_chunk_def)
  have h: "finished (phase (fst (run initial_state
      (tool_scenario @ [Chunk (finish_chunk ''tool_calls'')]))))"
    using m g block_accounting [of tool_scenario] by blast
  have d: "snd (run initial_state (tool_scenario @ [Disconnection]))
     = [Message_open ''assistant'', Content_block_open 0 Text_block,
        Content_block_delta 0 ''Hel'', Content_block_close 0,
        Content_block_open 1 Tool_use_block, Content_block_delta 1 ''{}'',
        Content_block_close 1, Cancelled_event]"
    by (simp add: tool_scenario_def initial_state_def step_def on_payload_def on_text_def
        on_tool_def open_new_def end_stream_def close_open_def text_chunk_def tool_chunk_def)
  show ?thesis using r e m h d by blast
qed

end
